theory Spec2Isabelle
  imports
    Complex_Main
    "HOL-Library.Word"
    "HOL-Library.AList"
    "HOL-Library.Multiset"
    "HOL-Library.Char_ord"
    "HOL-Library.List_Lexorder"
    "HOL-Library.Sublist"
begin

section \<open>Strings and channel types\<close>

text \<open>
  Go strings are byte sequences; \<open>string\<close> is a list of 8-bit characters, so
  \<open>length\<close> is Go's \<open>len\<close>. \<open>model.ChannelType\<close> is a string type of the
  Mattermost server package with four constants.
\<close>

type_synonym ChannelType = string

definition ChannelTypeOpen :: ChannelType where "ChannelTypeOpen = ''O''"
definition ChannelTypePrivate :: ChannelType where "ChannelTypePrivate = ''P''"
definition ChannelTypeDirect :: ChannelType where "ChannelTypeDirect = ''D''"
definition ChannelTypeGroup :: ChannelType where "ChannelTypeGroup = ''G''"

section \<open>Data model of a Slack export\<close>

text \<open>
  The type declarations of the export (\<open>SlackChannel\<close>, \<open>SlackUser\<close>,
  \<open>SlackPost\<close> and their parts) with the fields the merge and the transform read.
  A pointer that may be nil is an \<open>option\<close>. So is a slice of a post or of a reaction,
  \<open>None\<close> for the nil slice: the merge compares posts with \<open>reflect.DeepEqual\<close>, which
  tells a nil slice from an empty one, and equality of the records is this comparison.
  The element of \<open>Files\<close> is a pointer to a file; the type of an element of
  \<open>Attachments\<close> is declared in another package, and a string stands for it. The
  other slices (the members of a channel, the lists of an export, the extra bytes of a
  zip header) are lists: the code reads their lengths and elements only, or clones them
  before it compares them.
\<close>

definition elems :: "'a list option \<Rightarrow> 'a list" where
  "elems s = (case s of None \<Rightarrow> [] | Some xs \<Rightarrow> xs)"

record SlackChannelSub =
  Value :: string

record SlackChannel =
  Id :: string
  Name :: string
  Creator :: string
  Members :: "string list"
  Purpose :: SlackChannelSub
  Topic :: SlackChannelSub
  Type :: ChannelType

record SlackProfile =
  BotID :: string
  FirstName :: string
  LastName :: string
  Title :: string
  Email :: string

record SlackUser =
  Id :: string
  Username :: string
  IsBot :: bool
  Profile :: SlackProfile

record SlackComment =
  User :: string
  Comment :: string

record SlackFile =
  Id :: string
  Name :: string
  DownloadURL :: string
  Size :: int

record SlackReaction =
  Name :: string
  Count :: int
  Users :: "string list option"

record SlackPost =
  User :: string
  BotId :: string
  Text :: string
  TimeStamp :: string
  ThreadTS :: string
  Type :: string
  SubType :: string
  Comment :: "SlackComment option"
  File :: "SlackFile option"
  Files :: "SlackFile option list option"
  Attachments :: "string list option"
  Reactions :: "SlackReaction list option option"
  Original :: string

text \<open>The fields of \<open>zip.File\<close> (its \<open>FileHeader\<close>) that the merge reads or lets differ.\<close>

record zipFile =
  Name :: string
  Comment :: string
  NonUTF8 :: bool
  CreatorVersion :: "16 word"
  ReaderVersion :: "16 word"
  Flags :: "16 word"
  CRC32 :: "32 word"
  UncompressedSize64 :: "64 word"
  Extra :: "8 word list"
  ExternalAttrs :: "32 word"

record SlackExport =
  TeamName :: string
  Channels :: "SlackChannel list"
  PublicChannels :: "SlackChannel list"
  PrivateChannels :: "SlackChannel list"
  GroupChannels :: "SlackChannel list"
  DirectChannels :: "SlackChannel list"
  Users :: "SlackUser list"
  Posts :: "(string \<times> SlackPost list) list"
  Uploads :: "(string \<times> zipFile) list"

text \<open>
  The values \<open>json.Unmarshal\<close> stores in a \<open>map[string]interface{}\<close>: nil, bool,
  float64, string, \<open>[]interface{}\<close> and \<open>map[string]interface{}\<close>. A nil map (the
  document \<open>null\<close>) is \<open>JNull\<close>.
\<close>

datatype json =
    JNull
  | JBool bool
  | JNumber rat
  | JString string
  | JArray "json list"
  | JObject "(string \<times> json) list"

record zipExtraField =
  field :: "16 word"
  data :: "8 word list"

section \<open>Data model of the intermediate representation\<close>

record IntermediateChannel =
  Id :: string
  OriginalName :: string
  Name :: string
  DisplayName :: string
  Members :: "string list"
  MembersUsernames :: "string list"
  Purpose :: string
  Header :: string
  Topic :: string
  Type :: ChannelType

record IntermediateUser =
  Id :: string
  Username :: string
  FirstName :: string
  LastName :: string
  Position :: string
  Email :: string
  Password :: string
  Memberships :: "string list"

text \<open>
  The properties of an intermediate post: the two keys \<open>GetPropsForPost\<close> may set,
  \<open>None\<close> for a key that is not set. The value of \<open>attachments\<close> is a slice.
\<close>

record Props =
  attachments :: "string list option option"
  slackOriginal :: "string option"

record ReactionImportData =
  User :: string
  CreateAt :: "64 word"
  EmojiName :: string

text \<open>
  \<open>IntermediatePost\<close> owns its replies, so it is a recursive datatype; \<open>CreateAt\<close> is
  an \<open>int64\<close>.
\<close>

datatype IntermediatePost = IntermediatePost
  (User: string)
  (Channel: string)
  (Message: string)
  (Props: "Props option")
  (CreateAt: "64 word")
  (Attachments: "string list")
  (Replies: "IntermediatePost list")
  (IsDirect: bool)
  (ChannelMembers: "string list")
  (Reactions: "ReactionImportData list option")

section \<open>Parameters of the model\<close>

text \<open>
  Functions and constants that the package takes from other packages (the Go standard
  library, the Mattermost \<open>model\<close> package), from the file system and the network, or
  that are declared in other files of the package. They are parameters of the model:
  \<^item> the length limits of the \<open>model\<close> package;
  \<open>isValidChannelNameCharacters\<close>, \<open>truncateRunes\<close>, \<open>utf8.RuneCountInString\<close>,
  \<open>strings.ToLower\<close>;
  \<^item> \<open>NewId n\<close> is the result of the \<open>n\<close>-th call of \<open>model.NewId()\<close>;
  \<^item> \<open>Unmarshal\<close> is \<open>json.Unmarshal\<close> into a \<open>map[string]interface{}\<close> (\<open>None\<close> is
  an error) and \<open>Marshal\<close> is \<open>json.Marshal\<close>;
  \<^item> \<open>rangeRank ks k\<close> fixes the order in which a \<open>range\<close> over a map with the keys
  \<open>ks\<close> visits them, which Go leaves unspecified: by increasing rank;
  \<^item> the post classifiers \<open>IsPlainMessage\<close> ... \<open>IsChannelNameMessage\<close>;
  \<^item> \<open>SlackConvertTimeStamp\<close>, the millisecond conversion that \<open>TransformPosts\<close>
  calls;
  \<^item> \<open>copiedFiles p\<close> is the list of paths \<open>AddFilesToPost\<close> appends to the
  attachments of the new post for \<open>p\<close> once its copies and downloads are done;
  \<^item> \<open>PropsRuneCount\<close> is \<open>utf8.RuneCount\<close> of the marshalled properties.
\<close>

record Lib =
  ChannelNameMaxLength :: nat
  ChannelDisplayNameMaxRunes :: nat
  ChannelPurposeMaxRunes :: nat
  ChannelHeaderMaxRunes :: nat
  PostPropsMaxRunes :: nat
  isValidChannelNameCharacters :: "string \<Rightarrow> bool"
  truncateRunes :: "string \<Rightarrow> nat \<Rightarrow> string"
  RuneCountInString :: "string \<Rightarrow> nat"
  ToLower :: "string \<Rightarrow> string"
  NewId :: "nat \<Rightarrow> string"
  Unmarshal :: "string \<Rightarrow> json option"
  Marshal :: "json \<Rightarrow> string option"
  rangeRank :: "string list \<Rightarrow> string \<Rightarrow> nat"
  IsPlainMessage :: "SlackPost \<Rightarrow> bool"
  IsFileComment :: "SlackPost \<Rightarrow> bool"
  IsBotMessage :: "SlackPost \<Rightarrow> bool"
  IsJoinLeaveMessage :: "SlackPost \<Rightarrow> bool"
  IsMeMessage :: "SlackPost \<Rightarrow> bool"
  IsChannelTopicMessage :: "SlackPost \<Rightarrow> bool"
  IsChannelPurposeMessage :: "SlackPost \<Rightarrow> bool"
  IsChannelNameMessage :: "SlackPost \<Rightarrow> bool"
  SlackConvertTimeStamp :: "string \<Rightarrow> 64 word"
  copiedFiles :: "SlackPost \<Rightarrow> string list"
  PropsRuneCount :: "Props \<Rightarrow> nat"

section \<open>Channel sanitisation\<close>

text \<open>
  \<open>strings.Trim(s, cutset)\<close> for an ASCII cutset: the leading and the trailing
  characters of the cutset are removed.
\<close>

definition Trim :: "string \<Rightarrow> string \<Rightarrow> string" where
  "Trim s cutset =
     rev (dropWhile (\<lambda>c. c \<in> set cutset) (rev (dropWhile (\<lambda>c. c \<in> set cutset) s)))"

text \<open>The warnings \<open>Sanitise\<close> sends to its logger, each with the display name it prints.\<close>

datatype warning =
    HandleTooLong string
  | DisplayNameTooLong string
  | PurposeTooLong string
  | HeaderTooLong string

text \<open>
  \<open>(c *IntermediateChannel) Sanitise(logger)\<close>: the channel is mutated in place and the
  warnings go to the logger; the model returns the channel and the warnings in order.
\<close>

definition Sanitise :: "Lib \<Rightarrow> IntermediateChannel \<Rightarrow> IntermediateChannel \<times> warning list" where
  "Sanitise lib c =
     (if Type c = ChannelTypeDirect then (c, [])
      else
        let n1 = Trim (Name c) ''_-'';
            w1 = (if length n1 > ChannelNameMaxLength lib
                  then [HandleTooLong (DisplayName c)] else []);
            n2 = (if length n1 > ChannelNameMaxLength lib
                  then take (ChannelNameMaxLength lib) n1 else n1);
            n3 = (if length n2 = 1 then ''slack-channel-'' @ n2 else n2);
            n4 = (if \<not> isValidChannelNameCharacters lib n3
                  then ToLower lib (IntermediateChannel.Id c) else n3);
            d1 = Trim (DisplayName c) ''_-'';
            w2 = (if RuneCountInString lib d1 > ChannelDisplayNameMaxRunes lib
                  then [DisplayNameTooLong d1] else []);
            d2 = (if RuneCountInString lib d1 > ChannelDisplayNameMaxRunes lib
                  then truncateRunes lib d1 (ChannelDisplayNameMaxRunes lib) else d1);
            d3 = (if length d2 = 1 then ''slack-channel-'' @ d2 else d2);
            w3 = (if RuneCountInString lib (Purpose c) > ChannelPurposeMaxRunes lib
                  then [PurposeTooLong d3] else []);
            p1 = (if RuneCountInString lib (Purpose c) > ChannelPurposeMaxRunes lib
                  then truncateRunes lib (Purpose c) (ChannelPurposeMaxRunes lib)
                  else Purpose c);
            w4 = (if RuneCountInString lib (Header c) > ChannelHeaderMaxRunes lib
                  then [HeaderTooLong d3] else []);
            h1 = (if RuneCountInString lib (Header c) > ChannelHeaderMaxRunes lib
                  then truncateRunes lib (Header c) (ChannelHeaderMaxRunes lib)
                  else Header c)
        in (c\<lparr>Name := n4, DisplayName := d3, Purpose := p1, Header := h1\<rparr>,
            w1 @ w2 @ w3 @ w4))"

section \<open>Override application\<close>

text \<open>
  Go maps are association lists with distinct keys; \<open>map_of\<close> is the lookup and
  \<open>len(m) == 0\<close> is \<open>m = []\<close>. The logger's output is not part of the model of the
  two functions below.
\<close>

definition ApplyUserOverrides ::
  "(string \<times> IntermediateUser) list \<Rightarrow> IntermediateUser \<Rightarrow> IntermediateUser" where
  "ApplyUserOverrides UserOverrides user =
     (if UserOverrides = [] then user
      else case map_of UserOverrides (Username user) of
        None \<Rightarrow> user
      | Some overrideUser \<Rightarrow>
          let u1 = (if Username overrideUser \<noteq> ''''
                    then user\<lparr>Username := Username overrideUser\<rparr> else user);
              u2 = (if FirstName overrideUser \<noteq> ''''
                    then (let u = u1\<lparr>FirstName := FirstName overrideUser\<rparr>
                          in if FirstName u = ''-'' then u\<lparr>FirstName := ''''\<rparr> else u)
                    else u1);
              u3 = (if LastName overrideUser \<noteq> ''''
                    then (let u = u2\<lparr>LastName := LastName overrideUser\<rparr>
                          in if LastName u = ''-'' then u\<lparr>LastName := ''''\<rparr> else u)
                    else u2);
              u4 = (if Position overrideUser \<noteq> ''''
                    then (let u = u3\<lparr>Position := Position overrideUser\<rparr>
                          in if Position u = ''-'' then u\<lparr>Position := ''''\<rparr> else u)
                    else u3);
              u5 = (if Email overrideUser \<noteq> ''''
                    then u4\<lparr>Email := Email overrideUser\<rparr> else u4);
              u6 = (if Password overrideUser \<noteq> ''''
                    then u5\<lparr>Password := Password overrideUser\<rparr> else u5)
          in u6)"

definition ApplyChannelOverrides ::
  "(string \<times> IntermediateChannel) list \<Rightarrow> IntermediateChannel \<Rightarrow> IntermediateChannel" where
  "ApplyChannelOverrides ChannelOverrides channel =
     (if ChannelOverrides = [] then channel
      else case map_of ChannelOverrides (Name channel) of
        None \<Rightarrow> channel
      | Some overrideChannel \<Rightarrow>
          let c1 = (if Name overrideChannel \<noteq> ''''
                    then (let c = channel\<lparr>Name :=
                                             Name overrideChannel\<rparr>
                          in if Name c = ''-''
                             then c\<lparr>Name := ''''\<rparr> else c)
                    else channel);
              c2 = (if DisplayName overrideChannel \<noteq> ''''
                    then (let c = c1\<lparr>DisplayName := DisplayName overrideChannel\<rparr>
                          in if DisplayName c = ''-'' then c\<lparr>DisplayName := ''''\<rparr> else c)
                    else c1);
              c3 = (if Purpose overrideChannel \<noteq> ''''
                    then (let c = c2\<lparr>Purpose := Purpose overrideChannel\<rparr>
                          in if Purpose c = ''-'' then c\<lparr>Purpose := ''''\<rparr> else c)
                    else c2);
              c4 = (if Header overrideChannel \<noteq> ''''
                    then (let c = c3\<lparr>Header := Header overrideChannel\<rparr>
                          in if Header c = ''-'' then c\<lparr>Header := ''''\<rparr> else c)
                    else c3);
              c5 = (if Topic overrideChannel \<noteq> ''''
                    then (let c = c4\<lparr>Topic := Topic overrideChannel\<rparr>
                          in if Topic c = ''-'' then c\<lparr>Topic := ''''\<rparr> else c)
                    else c4)
          in c5)"

section \<open>Merging exports\<close>

text \<open>
  Every \<open>errors.Errorf\<close> of the merge is a constructor, with the values its message
  prints.
\<close>

datatype merge_error =
    NoExports
  | TeamNamesDiffer string string
  | ChannelIdsDiffer string string
  | ChannelNamesDiffer string string
  | ChannelCreatorsDiffer string string
  | ChannelMembersDiffer "string list" "string list"
  | ChannelPurposesDiffer SlackChannelSub SlackChannelSub
  | ChannelTopicsDiffer SlackChannelSub SlackChannelSub
  | ChannelTypesDiffer ChannelType ChannelType
  | UsersDiffer SlackUser SlackUser
  | PostsUnequal SlackPost SlackPost
  | UnmarshalError string
  | MarshalError json
  | PostOriginalsDiffer string string
  | ZipNonUTF8Differ bool bool
  | ZipNamesDiffer string string
  | ZipCRC32Unknown "32 word" "32 word"
  | ZipCRC32Differ "32 word" "32 word"
  | ZipSizesDiffer "64 word" "64 word"
  | ZipExtraSizeTooLarge nat nat
  | ZipExtraLeftOver "8 word list"
  | ZipExtraParse merge_error string
  | ZipExtrasDiffer "8 word list" "8 word list"
  | ZipExternalAttrsDiffer "32 word" "32 word"

text \<open>
  \<open>cloneSlice\<close> and \<open>cloneMap\<close> copy a slice and a map; the elements are values that
  the merge never mutates.
\<close>

definition cloneSlice :: "'a list \<Rightarrow> 'a list" where
  "cloneSlice s = s"

definition cloneMap :: "('k \<times> 'v) list \<Rightarrow> ('k \<times> 'v) list" where
  "cloneMap m = m"

text \<open>
  A \<open>range\<close> over a map visits every entry once, by increasing rank of the keys (entries
  of equal rank in the order of the association list).
\<close>

definition rangeMap :: "(string list \<Rightarrow> string \<Rightarrow> nat) \<Rightarrow> (string \<times> 'v) list \<Rightarrow> (string \<times> 'v) list" where
  "rangeMap rank m = sort_key (\<lambda>kv. rank (map fst m) (fst kv)) m"

text \<open>The inner loop of \<open>mergeSlicesWith\<close> over one source slice.\<close>

fun mergeItems ::
  "('a \<Rightarrow> string) \<Rightarrow> ('a \<Rightarrow> 'a \<Rightarrow> merge_error + 'a) \<Rightarrow> 'a list \<Rightarrow> (string \<times> 'a) list
   \<Rightarrow> merge_error + (string \<times> 'a) list" where
  "mergeItems ident merge [] itemMap = Inr itemMap"
| "mergeItems ident merge (item # source) itemMap =
     (let itemId = ident item in
      case map_of itemMap itemId of
        Some existing \<Rightarrow>
          (case merge existing item of
             Inl err \<Rightarrow> Inl err
           | Inr mergedItem \<Rightarrow> mergeItems ident merge source (AList.update itemId mergedItem itemMap))
      | None \<Rightarrow> mergeItems ident merge source (AList.update itemId item itemMap))"

definition mergeSlicesWith ::
  "(string list \<Rightarrow> string \<Rightarrow> nat) \<Rightarrow> 'a list \<Rightarrow> 'a list \<Rightarrow> ('a \<Rightarrow> string)
   \<Rightarrow> ('a \<Rightarrow> 'a \<Rightarrow> merge_error + 'a) \<Rightarrow> merge_error + 'a list" where
  "mergeSlicesWith rank a b ident merge =
     (case mergeItems ident merge a [] of
        Inl err \<Rightarrow> Inl err
      | Inr itemMap1 \<Rightarrow>
          (case mergeItems ident merge b itemMap1 of
             Inl err \<Rightarrow> Inl err
           | Inr itemMap \<Rightarrow> Inr (map snd (rangeMap rank itemMap))))"

text \<open>The loop of \<open>mergeMapsWith\<close> over the entries of \<open>b\<close>, in the order of the range.\<close>

fun mergeEntries ::
  "('v \<Rightarrow> 'v \<Rightarrow> merge_error + 'v) \<Rightarrow> (string \<times> 'v) list \<Rightarrow> (string \<times> 'v) list
   \<Rightarrow> merge_error + (string \<times> 'v) list" where
  "mergeEntries merge [] ret = Inr ret"
| "mergeEntries merge ((k, v) # entries) ret =
     (case map_of ret k of
        Some existing \<Rightarrow>
          (case merge existing v of
             Inl err \<Rightarrow> Inl err
           | Inr merged \<Rightarrow> mergeEntries merge entries (AList.update k merged ret))
      | None \<Rightarrow> mergeEntries merge entries (AList.update k v ret))"

definition mergeMapsWith ::
  "(string list \<Rightarrow> string \<Rightarrow> nat) \<Rightarrow> (string \<times> 'v) list \<Rightarrow> (string \<times> 'v) list
   \<Rightarrow> ('v \<Rightarrow> 'v \<Rightarrow> merge_error + 'v) \<Rightarrow> merge_error + (string \<times> 'v) list" where
  "mergeMapsWith rank a b merge = mergeEntries merge (rangeMap rank b) (cloneMap a)"

subsection \<open>Channels\<close>

text \<open>\<open>sort.Strings\<close> sorts by the byte-wise lexicographic order of Go strings.\<close>

definition mergeChannel :: "SlackChannel \<Rightarrow> SlackChannel \<Rightarrow> merge_error + SlackChannel" where
  "mergeChannel a b =
     (if SlackChannel.Id a \<noteq> SlackChannel.Id b
      then Inl (ChannelIdsDiffer (SlackChannel.Id a) (SlackChannel.Id b))
      else if SlackChannel.Name a \<noteq> SlackChannel.Name b
      then Inl (ChannelNamesDiffer (SlackChannel.Name a) (SlackChannel.Name b))
      else if Creator a \<noteq> Creator b
      then Inl (ChannelCreatorsDiffer (Creator a) (Creator b))
      else
        let aMembers = sort (cloneSlice (SlackChannel.Members a));
            bMembers = sort (cloneSlice (SlackChannel.Members b))
        in if aMembers \<noteq> bMembers
           then Inl (ChannelMembersDiffer (SlackChannel.Members a) (SlackChannel.Members b))
           else if SlackChannel.Purpose a \<noteq> SlackChannel.Purpose b
           then Inl (ChannelPurposesDiffer (SlackChannel.Purpose a) (SlackChannel.Purpose b))
           else if SlackChannel.Topic a \<noteq> SlackChannel.Topic b
           then Inl (ChannelTopicsDiffer (SlackChannel.Topic a) (SlackChannel.Topic b))
           else if SlackChannel.Type a \<noteq> SlackChannel.Type b
           then Inl (ChannelTypesDiffer (SlackChannel.Type a) (SlackChannel.Type b))
           else Inr a)"

definition mergeChannels ::
  "(string list \<Rightarrow> string \<Rightarrow> nat) \<Rightarrow> SlackChannel list \<Rightarrow> SlackChannel list
   \<Rightarrow> merge_error + SlackChannel list" where
  "mergeChannels rank a b = mergeSlicesWith rank a b SlackChannel.Id mergeChannel"

subsection \<open>Users\<close>

definition mergeUser :: "SlackUser \<Rightarrow> SlackUser \<Rightarrow> merge_error + SlackUser" where
  "mergeUser a b =
     (if a = b then Inr a
      else
        let a1 = (if SlackProfile.Email (Profile a) = ''''
                  then a\<lparr>Profile := (Profile a)\<lparr>SlackProfile.Email := SlackProfile.Email (Profile b)\<rparr>\<rparr>
                  else a);
            b1 = (if SlackProfile.Email (Profile b) = ''''
                  then b\<lparr>Profile := (Profile b)\<lparr>SlackProfile.Email := SlackProfile.Email (Profile a1)\<rparr>\<rparr>
                  else b)
        in if a1 = b1 then Inr a1 else Inl (UsersDiffer a1 b1))"

definition mergeUsers ::
  "(string list \<Rightarrow> string \<Rightarrow> nat) \<Rightarrow> SlackUser list \<Rightarrow> SlackUser list
   \<Rightarrow> merge_error + SlackUser list" where
  "mergeUsers rank a b = mergeSlicesWith rank a b SlackUser.Id mergeUser"

subsection \<open>Posts\<close>

text \<open>
  The loop body of \<open>postOriginalEquivalent\<close> on one unmarshalled document: \<open>delete\<close> on
  the top-level map (a no-op on a nil map), then on every entry of \<open>blocks\<close> that is
  itself a map, when \<open>blocks\<close> is an array.
\<close>

definition deleteBlockId :: "json \<Rightarrow> json" where
  "deleteBlockId block =
     (case block of
        JObject blockMap \<Rightarrow> JObject (AList.delete ''block_id'' blockMap)
      | _ \<Rightarrow> block)"

definition stripVolatile :: "json \<Rightarrow> json" where
  "stripVolatile doc =
     (case doc of
        JObject m \<Rightarrow>
          (let m1 = AList.delete ''last_read'' m;
               m2 = AList.delete ''subscribed'' m1
           in case map_of m2 ''blocks'' of
                Some (JArray blocks) \<Rightarrow>
                  JObject (AList.update ''blocks'' (JArray (map deleteBlockId blocks)) m2)
              | _ \<Rightarrow> JObject m2)
      | _ \<Rightarrow> doc)"

definition postOriginalEquivalent :: "Lib \<Rightarrow> string \<Rightarrow> string \<Rightarrow> merge_error + bool" where
  "postOriginalEquivalent lib a b =
     (case Unmarshal lib a of
        None \<Rightarrow> Inl (UnmarshalError a)
      | Some m1 \<Rightarrow>
          (case Unmarshal lib b of
             None \<Rightarrow> Inl (UnmarshalError b)
           | Some m2 \<Rightarrow>
               (case Marshal lib (stripVolatile m1) of
                  None \<Rightarrow> Inl (MarshalError (stripVolatile m1))
                | Some modifiedJSON1 \<Rightarrow>
                    (case Marshal lib (stripVolatile m2) of
                       None \<Rightarrow> Inl (MarshalError (stripVolatile m2))
                     | Some modifiedJSON2 \<Rightarrow> Inr (modifiedJSON1 = modifiedJSON2)))))"

definition mergePost :: "Lib \<Rightarrow> SlackPost \<Rightarrow> SlackPost \<Rightarrow> merge_error + SlackPost" where
  "mergePost lib a b =
     (let aCopy = a\<lparr>Original := ''''\<rparr>;
          bCopy = b\<lparr>Original := ''''\<rparr>
      in if aCopy \<noteq> bCopy then Inl (PostsUnequal a b)
         else case postOriginalEquivalent lib (Original a) (Original b) of
                Inl err \<Rightarrow> Inl err
              | Inr originalsAreEquivalent \<Rightarrow>
                  if \<not> originalsAreEquivalent
                  then Inl (PostOriginalsDiffer (Original a) (Original b))
                  else Inr a)"

definition mergePostSlice :: "Lib \<Rightarrow> SlackPost list \<Rightarrow> SlackPost list \<Rightarrow> merge_error + SlackPost list" where
  "mergePostSlice lib a b = mergeSlicesWith (rangeRank lib) a b TimeStamp (mergePost lib)"

definition mergePosts ::
  "Lib \<Rightarrow> (string \<times> SlackPost list) list \<Rightarrow> (string \<times> SlackPost list) list
   \<Rightarrow> merge_error + (string \<times> SlackPost list) list" where
  "mergePosts lib a b = mergeMapsWith (rangeRank lib) a b (mergePostSlice lib)"

subsection \<open>Uploads\<close>

definition sliceEquals :: "'a list \<Rightarrow> 'a list \<Rightarrow> bool" where
  "sliceEquals a b = (length a = length b \<and> list_all (\<lambda>(x, y). x = y) (zip a b))"

text \<open>\<open>binary.LittleEndian.Uint16\<close> of the bytes \<open>b0\<close>, \<open>b1\<close>.\<close>

definition LittleEndian_Uint16 :: "8 word \<Rightarrow> 8 word \<Rightarrow> 16 word" where
  "LittleEndian_Uint16 b0 b1 = or (ucast b0) (push_bit 8 (ucast b1))"

text \<open>
  \<open>parseZipExtraFields\<close>: the loop runs while at least four bytes are left; the first
  equation is one round of it, the second the exit with nothing left over, the third the
  exit with one to three bytes left.
\<close>

fun parseZipExtraFields_loop ::
  "8 word list \<Rightarrow> zipExtraField list \<Rightarrow> merge_error + zipExtraField list" where
  "parseZipExtraFields_loop (b0 # b1 # s0 # s1 # rest) result =
     (let field = LittleEndian_Uint16 b0 b1;
          size = unat (LittleEndian_Uint16 s0 s1)
      in if size > length rest then Inl (ZipExtraSizeTooLarge size (length rest))
         else parseZipExtraFields_loop (drop size rest)
                (result @ [\<lparr>field = field, data = take size rest\<rparr>]))"
| "parseZipExtraFields_loop [] result = Inr result"
| "parseZipExtraFields_loop extra result = Inl (ZipExtraLeftOver extra)"

definition parseZipExtraFields :: "8 word list \<Rightarrow> merge_error + zipExtraField list" where
  "parseZipExtraFields extra = parseZipExtraFields_loop extra []"

fun zipExtraCanBeIgnored :: "zipExtraField list \<Rightarrow> bool" where
  "zipExtraCanBeIgnored [] = True"
| "zipExtraCanBeIgnored (f # extraFields) =
     (if field f = 0x5455 then zipExtraCanBeIgnored extraFields else False)"

definition mergeZipFile :: "zipFile \<Rightarrow> zipFile \<Rightarrow> merge_error + zipFile" where
  "mergeZipFile a b =
     (if NonUTF8 a \<noteq> NonUTF8 b then Inl (ZipNonUTF8Differ (NonUTF8 a) (NonUTF8 b))
      else if zipFile.Name a \<noteq> zipFile.Name b
      then Inl (ZipNamesDiffer (zipFile.Name a) (zipFile.Name b))
      else if CRC32 a = 0 \<or> CRC32 b = 0 then Inl (ZipCRC32Unknown (CRC32 a) (CRC32 b))
      else if CRC32 a \<noteq> CRC32 b then Inl (ZipCRC32Differ (CRC32 a) (CRC32 b))
      else if UncompressedSize64 a \<noteq> UncompressedSize64 b
      then Inl (ZipSizesDiffer (UncompressedSize64 a) (UncompressedSize64 b))
      else
        let extraResult =
          (if \<not> sliceEquals (Extra a) (Extra b)
           then (case parseZipExtraFields (Extra a) of
                   Inl err \<Rightarrow> Inl (ZipExtraParse err (zipFile.Name a))
                 | Inr aExtraParsed \<Rightarrow>
                     (case parseZipExtraFields (Extra b) of
                        Inl err \<Rightarrow> Inl (ZipExtraParse err (zipFile.Name b))
                      | Inr bExtraParsed \<Rightarrow>
                          if \<not> zipExtraCanBeIgnored aExtraParsed \<or> \<not> zipExtraCanBeIgnored bExtraParsed
                          then Inl (ZipExtrasDiffer (Extra a) (Extra b))
                          else Inr ()))
           else Inr ())
        in case extraResult of
             Inl err \<Rightarrow> Inl err
           | Inr _ \<Rightarrow>
               if ExternalAttrs a \<noteq> ExternalAttrs b
               then Inl (ZipExternalAttrsDiffer (ExternalAttrs a) (ExternalAttrs b))
               else Inr a)"

definition mergeUploads ::
  "Lib \<Rightarrow> (string \<times> zipFile) list \<Rightarrow> (string \<times> zipFile) list
   \<Rightarrow> merge_error + (string \<times> zipFile) list" where
  "mergeUploads lib a b = mergeMapsWith (rangeRank lib) a b mergeZipFile"

subsection \<open>Exports\<close>

text \<open>
  The body of the loop of \<open>MergeSlackExports\<close> for an index other than 0: the team name
  is compared first, then the eight collections are merged in turn.
\<close>

definition mergeExport :: "Lib \<Rightarrow> SlackExport \<Rightarrow> SlackExport \<Rightarrow> merge_error + SlackExport" where
  "mergeExport lib result slackExport =
     (if TeamName result \<noteq> TeamName slackExport
      then Inl (TeamNamesDiffer (TeamName result) (TeamName slackExport))
      else case mergeChannels (rangeRank lib) (Channels result) (Channels slackExport) of
        Inl err \<Rightarrow> Inl err
      | Inr channels \<Rightarrow>
      (case mergeChannels (rangeRank lib) (PublicChannels result) (PublicChannels slackExport) of
        Inl err \<Rightarrow> Inl err
      | Inr publicChannels \<Rightarrow>
      (case mergeChannels (rangeRank lib) (PrivateChannels result) (PrivateChannels slackExport) of
        Inl err \<Rightarrow> Inl err
      | Inr privateChannels \<Rightarrow>
      (case mergeChannels (rangeRank lib) (GroupChannels result) (GroupChannels slackExport) of
        Inl err \<Rightarrow> Inl err
      | Inr groupChannels \<Rightarrow>
      (case mergeChannels (rangeRank lib) (DirectChannels result) (DirectChannels slackExport) of
        Inl err \<Rightarrow> Inl err
      | Inr directChannels \<Rightarrow>
      (case mergeUsers (rangeRank lib) (Users result) (Users slackExport) of
        Inl err \<Rightarrow> Inl err
      | Inr users \<Rightarrow>
      (case mergePosts lib (Posts result) (Posts slackExport) of
        Inl err \<Rightarrow> Inl err
      | Inr posts \<Rightarrow>
      (case mergeUploads lib (Uploads result) (Uploads slackExport) of
        Inl err \<Rightarrow> Inl err
      | Inr uploads \<Rightarrow>
          Inr (result\<lparr>Channels := channels, PublicChannels := publicChannels,
                      PrivateChannels := privateChannels, GroupChannels := groupChannels,
                      DirectChannels := directChannels, Users := users, Posts := posts,
                      Uploads := uploads\<rparr>)))))))))"

fun mergeExports :: "Lib \<Rightarrow> SlackExport \<Rightarrow> SlackExport list \<Rightarrow> merge_error + SlackExport" where
  "mergeExports lib result [] = Inr result"
| "mergeExports lib result (slackExport # rest) =
     (case mergeExport lib result slackExport of
        Inl err \<Rightarrow> Inl err
      | Inr result' \<Rightarrow> mergeExports lib result' rest)"

text \<open>
  \<open>MergeSlackExports\<close>: no export is an error, one export is returned as it is, and
  otherwise the result starts as a copy of the first export (index 0 of the loop) and
  the others are merged into it from left to right.
\<close>

fun MergeSlackExports :: "Lib \<Rightarrow> SlackExport list \<Rightarrow> merge_error + SlackExport" where
  "MergeSlackExports lib [] = Inl NoExports"
| "MergeSlackExports lib [slackExport] = Inr slackExport"
| "MergeSlackExports lib (slackExport # rest) =
     mergeExports lib
       \<lparr>TeamName = TeamName slackExport,
        Channels = cloneSlice (Channels slackExport),
        PublicChannels = cloneSlice (PublicChannels slackExport),
        PrivateChannels = cloneSlice (PrivateChannels slackExport),
        GroupChannels = cloneSlice (GroupChannels slackExport),
        DirectChannels = cloneSlice (DirectChannels slackExport),
        Users = cloneSlice (Users slackExport),
        Posts = cloneMap (Posts slackExport),
        Uploads = cloneMap (Uploads slackExport)\<rparr>
       rest"

section \<open>Transforming posts\<close>

text \<open>
  The part of the transformer that the post transform reads and writes: the user index
  \<open>Intermediate.UsersById\<close>, the user overrides, and the number of calls of
  \<open>model.NewId()\<close> made so far. The logger's output is not part of the model.
\<close>

record Transformer =
  UsersById :: "(string \<times> IntermediateUser) list"
  UserOverrides :: "(string \<times> IntermediateUser) list"
  NewIdCalls :: nat

text \<open>
  What can keep a step of the transform from returning: the dereference of a nil user
  pointer, and the timestamp loop of \<open>AddPostToThreads\<close> not ending.
\<close>

datatype fault = NilDereference | Diverges

definition CreateIntermediateUser :: "Lib \<Rightarrow> Transformer \<Rightarrow> string \<Rightarrow> Transformer" where
  "CreateIntermediateUser lib t userID =
     (let newUser = \<lparr>IntermediateUser.Id = userID,
                     Username = ToLower lib userID,
                     FirstName = ''Deleted'',
                     LastName = ''User'',
                     Position = '''',
                     Email = userID @ ''@local'',
                     Password = NewId lib (NewIdCalls t),
                     Memberships = []\<rparr>;
          newUser' = ApplyUserOverrides (UserOverrides t) newUser
      in t\<lparr>UsersById := AList.update userID newUser' (UsersById t),
            NewIdCalls := Suc (NewIdCalls t)\<rparr>)"

text \<open>
  The three statements every branch of the transform uses to find an author:
  \<open>u := UsersById[lookupID]; if u == nil { CreateIntermediateUser(createID);
  u = UsersById[createID] }\<close>. The result \<open>None\<close> is a nil pointer.
\<close>

definition lookupOrCreate ::
  "Lib \<Rightarrow> Transformer \<Rightarrow> string \<Rightarrow> string \<Rightarrow> Transformer \<times> IntermediateUser option" where
  "lookupOrCreate lib t lookupID createID =
     (case map_of (UsersById t) lookupID of
        Some user \<Rightarrow> (t, Some user)
      | None \<Rightarrow>
          (let t' = CreateIntermediateUser lib t createID
           in (t', map_of (UsersById t') createID)))"

text \<open>\<open>strings.TrimSuffix\<close> where \<open>strings.HasSuffix\<close> holds, and \<open>strings.Replace\<close> of one byte.\<close>

definition TrimSuffix :: "string \<Rightarrow> string \<Rightarrow> string" where
  "TrimSuffix s suf = (if suffix suf s then take (length s - length suf) s else s)"

definition ReplaceChar :: "string \<Rightarrow> char \<Rightarrow> char \<Rightarrow> string" where
  "ReplaceChar s old new = map (\<lambda>c. if c = old then new else c) s"

function SlackConvertEmojiName :: "string \<Rightarrow> string" where
  "SlackConvertEmojiName ret =
     (if suffix ''::skin-tone-2'' ret
      then SlackConvertEmojiName (TrimSuffix ret ''::skin-tone-2'') @ ''_light_skin_tone''
      else if suffix ''::skin-tone-3'' ret
      then SlackConvertEmojiName (TrimSuffix ret ''::skin-tone-3'') @ ''_medium_light_skin_tone''
      else if suffix ''::skin-tone-4'' ret
      then SlackConvertEmojiName (TrimSuffix ret ''::skin-tone-4'') @ ''_medium_skin_tone''
      else if suffix ''::skin-tone-5'' ret
      then SlackConvertEmojiName (TrimSuffix ret ''::skin-tone-5'') @ ''_medium_dark_skin_tone''
      else if suffix ''::skin-tone-6'' ret
      then SlackConvertEmojiName (TrimSuffix ret ''::skin-tone-6'') @ ''_dark_skin_tone''
      else if CHR '':'' \<in> set ret then ReplaceChar ret (CHR '':'') (CHR ''_'')
      else ret)"
  by pat_completeness auto
termination
  by (relation "measure length") (auto simp: TrimSuffix_def suffix_def)

text \<open>
  The inner and the outer loop of \<open>SlackConvertReactions\<close>; a \<open>range\<close> over a nil
  slice has no round. The result is nil for a nil pointer and points to a slice made by
  \<open>make\<close> otherwise.
\<close>

fun convertReactionUsers ::
  "Lib \<Rightarrow> string \<Rightarrow> 64 word \<Rightarrow> string list \<Rightarrow> Transformer \<Rightarrow> ReactionImportData list
   \<Rightarrow> fault + Transformer \<times> ReactionImportData list" where
  "convertReactionUsers lib emojiName postCreateAt [] t ret = Inr (t, ret)"
| "convertReactionUsers lib emojiName postCreateAt (userId # users) t ret =
     (case lookupOrCreate lib t userId userId of
        (t', None) \<Rightarrow> Inl NilDereference
      | (t', Some user) \<Rightarrow>
          (let reactionCreateAt = postCreateAt + 1
           in convertReactionUsers lib emojiName postCreateAt users t'
                (ret @ [\<lparr>ReactionImportData.User = Username user,
                         ReactionImportData.CreateAt = reactionCreateAt,
                         EmojiName = emojiName\<rparr>])))"

fun convertReactions ::
  "Lib \<Rightarrow> 64 word \<Rightarrow> SlackReaction list \<Rightarrow> Transformer \<Rightarrow> ReactionImportData list
   \<Rightarrow> fault + Transformer \<times> ReactionImportData list" where
  "convertReactions lib postCreateAt [] t ret = Inr (t, ret)"
| "convertReactions lib postCreateAt (slackReaction # rest) t ret =
     (let emojiName = SlackConvertEmojiName (SlackReaction.Name slackReaction)
      in case convertReactionUsers lib emojiName postCreateAt
             (elems (SlackReaction.Users slackReaction)) t ret of
           Inl f \<Rightarrow> Inl f
         | Inr (t', ret') \<Rightarrow> convertReactions lib postCreateAt rest t' ret')"

definition SlackConvertReactions ::
  "Lib \<Rightarrow> Transformer \<Rightarrow> SlackReaction list option option \<Rightarrow> 64 word
   \<Rightarrow> fault + Transformer \<times> ReactionImportData list option" where
  "SlackConvertReactions lib t slackReactions postCreateAt =
     (case slackReactions of
        None \<Rightarrow> Inr (t, None)
      | Some rs \<Rightarrow>
          (case convertReactions lib postCreateAt (elems rs) t [] of
             Inl f \<Rightarrow> Inl f
           | Inr (t', ret) \<Rightarrow> Inr (t', Some ret)))"

text \<open>
  \<open>GetPropsForPost\<close> returns the properties (nil when no key is set) and their JSON
  bytes; \<open>propsRunes\<close> is \<open>utf8.RuneCount\<close> of these bytes, 0 for nil.
\<close>

definition GetPropsForPost :: "SlackPost \<Rightarrow> bool \<Rightarrow> bool \<Rightarrow> Props option" where
  "GetPropsForPost post addAttachments addOriginal =
     (if \<not> addAttachments \<and> \<not> addOriginal then None
      else Some \<lparr>attachments = (if addAttachments then Some (SlackPost.Attachments post) else None),
                 slackOriginal = (if addOriginal then Some (Original post) else None)\<rparr>)"

definition propsRunes :: "Lib \<Rightarrow> Props option \<Rightarrow> nat" where
  "propsRunes lib props = (case props of None \<Rightarrow> 0 | Some p \<Rightarrow> PropsRuneCount lib p)"

subsection \<open>Threads\<close>

text \<open>Assignments to one field of a post.\<close>

fun setProps :: "Props option \<Rightarrow> IntermediatePost \<Rightarrow> IntermediatePost" where
  "setProps v (IntermediatePost u c m p ca a r d cm re) = IntermediatePost u c m v ca a r d cm re"

fun setCreateAt :: "64 word \<Rightarrow> IntermediatePost \<Rightarrow> IntermediatePost" where
  "setCreateAt v (IntermediatePost u c m p ca a r d cm re) = IntermediatePost u c m p v a r d cm re"

fun setAttachments :: "string list \<Rightarrow> IntermediatePost \<Rightarrow> IntermediatePost" where
  "setAttachments v (IntermediatePost u c m p ca a r d cm re) = IntermediatePost u c m p ca v r d cm re"

fun setReplies :: "IntermediatePost list \<Rightarrow> IntermediatePost \<Rightarrow> IntermediatePost" where
  "setReplies v (IntermediatePost u c m p ca a r d cm re) = IntermediatePost u c m p ca a v d cm re"

fun setIsDirect :: "bool \<Rightarrow> IntermediatePost \<Rightarrow> IntermediatePost" where
  "setIsDirect v (IntermediatePost u c m p ca a r d cm re) = IntermediatePost u c m p ca a r v cm re"

fun setChannelMembers :: "string list \<Rightarrow> IntermediatePost \<Rightarrow> IntermediatePost" where
  "setChannelMembers v (IntermediatePost u c m p ca a r d cm re) = IntermediatePost u c m p ca a r d v re"

text \<open>
  The loop of \<open>AddPostToThreads\<close> that avoids timestamp duplications. The map
  \<open>timestamps\<close> only ever holds \<open>true\<close>, and the loop asks for the presence of a key:
  it is the list of its keys. \<open>CreateAt++\<close> wraps around at 64 bits. The loop has no
  bound in the source, so the model is a partial function: \<open>None\<close> is a loop that never
  ends.
\<close>

partial_function (option) avoidTimestampDuplications :: "64 word list \<Rightarrow> 64 word \<Rightarrow> 64 word option" where
  "avoidTimestampDuplications timestamps createAt =
     (if createAt \<in> set timestamps
      then avoidTimestampDuplications timestamps (createAt + 1)
      else Some createAt)"

text \<open>
  \<open>AddPostToThreads\<close> mutates the post, the map \<open>threads\<close> and the map \<open>timestamps\<close>;
  the model returns the two maps. A root post is only reachable through \<open>threads\<close>, so
  appending to its replies is an update of its entry.
\<close>

definition AddPostToThreads ::
  "SlackPost \<Rightarrow> IntermediatePost \<Rightarrow> (string \<times> IntermediatePost) list \<Rightarrow> IntermediateChannel
   \<Rightarrow> 64 word list \<Rightarrow> fault + (string \<times> IntermediatePost) list \<times> 64 word list" where
  "AddPostToThreads original post threads channel timestamps =
     (let post1 = (if Type channel = ChannelTypeDirect \<or> Type channel = ChannelTypeGroup
                   then setChannelMembers (MembersUsernames channel) (setIsDirect True post)
                   else setIsDirect False post)
      in case avoidTimestampDuplications timestamps (CreateAt post1) of
           None \<Rightarrow> Inl Diverges
         | Some createAt \<Rightarrow>
             (let post2 = setCreateAt createAt post1;
                  timestamps' = createAt # timestamps
              in if ThreadTS original \<noteq> '''' \<and> ThreadTS original \<noteq> TimeStamp original
                 then (case map_of threads (ThreadTS original) of
                         None \<Rightarrow> Inr (threads, timestamps')
                       | Some rootPost \<Rightarrow>
                           Inr (AList.update (ThreadTS original)
                                  (setReplies (Replies rootPost @ [post2]) rootPost) threads,
                                timestamps'))
                 else if TimeStamp original = ThreadTS original
                 then Inr (AList.update (ThreadTS original) post2 threads, timestamps')
                 else Inr (AList.update (TimeStamp original) post2 threads, timestamps')))"

subsection \<open>The loop over the posts of a channel\<close>

text \<open>
  The statements every supported kind runs once it has its author, from the conversion
  of the timestamp to the call of \<open>AddPostToThreads\<close>: the source repeats them in the
  branches for plain messages, file comments and bot messages and in
  \<open>CreateAndAddPostToThreads\<close>. They differ in the message and in \<open>withFiles\<close>: only
  plain and bot messages call \<open>AddFilesToPost\<close> and put the attachments of the post
  into the properties. The state is the transformer together with \<open>threads\<close> and
  \<open>timestamps\<close> of the channel.
\<close>

definition buildAndAddPost ::
  "Lib \<Rightarrow> bool \<Rightarrow> bool \<Rightarrow> SlackPost \<Rightarrow> IntermediateUser \<Rightarrow> string \<Rightarrow> bool \<Rightarrow> IntermediateChannel
   \<Rightarrow> Transformer \<times> (string \<times> IntermediatePost) list \<times> 64 word list
   \<Rightarrow> fault + Transformer \<times> (string \<times> IntermediatePost) list \<times> 64 word list" where
  "buildAndAddPost lib discardInvalidProps addOriginal post author message withFiles channel st =
     (case st of (t, threads, timestamps) \<Rightarrow>
      let createAt = SlackConvertTimeStamp lib (TimeStamp post)
      in case SlackConvertReactions lib t (SlackPost.Reactions post) createAt of
           Inl f \<Rightarrow> Inl f
         | Inr (t', reactions) \<Rightarrow>
             (let newPost = IntermediatePost (Username author) (Name channel) message None
                              createAt [] [] False [] reactions;
                  newPost1 = (if withFiles
                              then setAttachments (Attachments newPost @ copiedFiles lib post) newPost
                              else newPost);
                  props = GetPropsForPost post (withFiles \<and> elems (SlackPost.Attachments post) \<noteq> [])
                            addOriginal
              in if propsRunes lib props \<le> PostPropsMaxRunes lib
                 then (case AddPostToThreads post (setProps props newPost1) threads channel timestamps of
                         Inl f \<Rightarrow> Inl f
                       | Inr (threads', timestamps') \<Rightarrow> Inr (t', threads', timestamps'))
                 else if discardInvalidProps then Inr (t', threads, timestamps)
                 else (case AddPostToThreads post newPost1 threads channel timestamps of
                         Inl f \<Rightarrow> Inl f
                       | Inr (threads', timestamps') \<Rightarrow> Inr (t', threads', timestamps'))))"

definition CreateAndAddPostToThreads ::
  "Lib \<Rightarrow> bool \<Rightarrow> bool \<Rightarrow> SlackPost \<Rightarrow> IntermediateChannel
   \<Rightarrow> Transformer \<times> (string \<times> IntermediatePost) list \<times> 64 word list
   \<Rightarrow> fault + Transformer \<times> (string \<times> IntermediatePost) list \<times> 64 word list" where
  "CreateAndAddPostToThreads lib discardInvalidProps addOriginal post channel st =
     (case st of (t, threads, timestamps) \<Rightarrow>
      case lookupOrCreate lib t (SlackPost.User post) (SlackPost.User post) of
        (t1, None) \<Rightarrow> Inl NilDereference
      | (t1, Some author) \<Rightarrow>
          buildAndAddPost lib discardInvalidProps addOriginal post author (Text post) False channel
            (t1, threads, timestamps))"

text \<open>
  The body of the loop of \<open>TransformPosts\<close> over the posts of one channel: the
  \<open>switch\<close> on the kind of the post. A \<open>continue\<close> returns the state as it is.
\<close>

definition transformPost ::
  "Lib \<Rightarrow> bool \<Rightarrow> bool \<Rightarrow> IntermediateChannel \<Rightarrow> SlackPost
   \<Rightarrow> Transformer \<times> (string \<times> IntermediatePost) list \<times> 64 word list
   \<Rightarrow> fault + Transformer \<times> (string \<times> IntermediatePost) list \<times> 64 word list" where
  "transformPost lib discardInvalidProps addOriginal channel post st =
     (case st of (t, threads, timestamps) \<Rightarrow>
      if IsPlainMessage lib post then
        (if SlackPost.User post = '''' then Inr st
         else case lookupOrCreate lib t (SlackPost.User post) (SlackPost.User post) of
                (t1, None) \<Rightarrow> Inl NilDereference
              | (t1, Some author) \<Rightarrow>
                  buildAndAddPost lib discardInvalidProps addOriginal post author (Text post) True
                    channel (t1, threads, timestamps))
      else if IsFileComment lib post then
        (case SlackPost.Comment post of
           None \<Rightarrow> Inr st
         | Some comment \<Rightarrow>
             if SlackComment.User comment = '''' then Inr st
             else case lookupOrCreate lib t (SlackComment.User comment) (SlackPost.User post) of
                    (t1, None) \<Rightarrow> Inl NilDereference
                  | (t1, Some author) \<Rightarrow>
                      buildAndAddPost lib discardInvalidProps addOriginal post author
                        (SlackComment.Comment comment) False channel (t1, threads, timestamps))
      else if IsBotMessage lib post then
        (if BotId post = '''' \<and> SlackPost.User post = '''' then Inr st
         else
           let post' = (if BotId post = '''' then post\<lparr>BotId := SlackPost.User post\<rparr> else post)
           in case lookupOrCreate lib t (BotId post') (BotId post') of
                (t1, None) \<Rightarrow> Inl NilDereference
              | (t1, Some author) \<Rightarrow>
                  buildAndAddPost lib discardInvalidProps addOriginal post' author (Text post') True
                    channel (t1, threads, timestamps))
      else if IsJoinLeaveMessage lib post then
        (if SlackPost.User post = '''' then Inr st
         else CreateAndAddPostToThreads lib discardInvalidProps addOriginal post channel st)
      else if IsMeMessage lib post then
        (if SlackPost.User post = '''' then Inr st
         else CreateAndAddPostToThreads lib discardInvalidProps addOriginal post channel st)
      else if IsChannelTopicMessage lib post then
        (if SlackPost.User post = '''' then Inr st
         else CreateAndAddPostToThreads lib discardInvalidProps addOriginal post channel st)
      else if IsChannelPurposeMessage lib post then
        (if SlackPost.User post = '''' then Inr st
         else CreateAndAddPostToThreads lib discardInvalidProps addOriginal post channel st)
      else if IsChannelNameMessage lib post then
        (if SlackPost.User post = '''' then Inr st
         else CreateAndAddPostToThreads lib discardInvalidProps addOriginal post channel st)
      else Inr st)"



text \<open>A post together with its replies, and theirs: the posts a root brings to the output.\<close>

fun postAndReplies :: "IntermediatePost \<Rightarrow> IntermediatePost list" where
  "postAndReplies (IntermediatePost u c m p ca a r d cm re) =
     IntermediatePost u c m p ca a r d cm re # concat (map postAndReplies r)"

definition emittedPosts :: "IntermediatePost list \<Rightarrow> IntermediatePost list" where
  "emittedPosts roots = concat (map postAndReplies roots)"

section \<open>Timestamp conversion\<close>

text \<open>
  Modelled from the spec: \<open>SlackConvertTimeStamp\<close>, the millisecond conversion, is
  declared in \<open>export.go\<close>, a file of the package that lies outside the files embedded
  here; its test table is in \<open>export_test.go\<close>. The spec has it parse its argument as a
  decimal number of seconds (no fractional digits and a trailing dot are allowed), return
  1 when the parse fails, and otherwise return the value times 1000, rounded to the
  nearest integer with ties away from zero.
\<close>

text \<open>Modelled from the spec: a decimal digit.\<close>

definition isDigit :: "char \<Rightarrow> bool" where
  "isDigit c = (CHR ''0'' \<le> c \<and> c \<le> CHR ''9'')"

text \<open>Modelled from the spec: the value of a decimal digit.\<close>

definition digitValue :: "char \<Rightarrow> nat" where
  "digitValue c = of_char c - of_char (CHR ''0'')"

text \<open>Modelled from the spec: the value of a run of decimal digits, 0 for the empty run.\<close>

definition digitsValue :: "string \<Rightarrow> nat" where
  "digitsValue ds = foldl (\<lambda>n c. 10 * n + digitValue c) 0 ds"

text \<open>
  Modelled from the spec: a decimal number of seconds is a non-empty run of digits,
  optionally followed by a dot and a (possibly empty) run of digits; anything else does
  not parse.
\<close>

definition parseSeconds :: "string \<Rightarrow> rat option" where
  "parseSeconds s =
     (let whole = takeWhile (\<lambda>c. c \<noteq> CHR ''.'') s;
          frac = drop 1 (dropWhile (\<lambda>c. c \<noteq> CHR ''.'') s)
      in if whole \<noteq> [] \<and> list_all isDigit whole \<and> list_all isDigit frac
         then Some (of_nat (digitsValue whole) + of_nat (digitsValue frac) / 10 ^ length frac)
         else None)"

text \<open>Modelled from the spec: rounding to the nearest integer, ties away from zero.\<close>

definition roundHalfAway :: "rat \<Rightarrow> int" where
  "roundHalfAway x = (if x < 0 then - \<lfloor>- x + 1 / 2\<rfloor> else \<lfloor>x + 1 / 2\<rfloor>)"

text \<open>
  Modelled from the spec: the sentinel 1 on a parse failure, otherwise the seconds times
  1000, rounded.
\<close>

definition SlackConvertTimeStamp_spec :: "string \<Rightarrow> int" where
  "SlackConvertTimeStamp_spec ts =
     (case parseSeconds ts of
        None \<Rightarrow> 1
      | Some seconds \<Rightarrow> roundHalfAway (seconds * 1000))"

section \<open>Concrete instances\<close>

text \<open>
  An instance of the parameters and a few values of the data model, on which the
  definitions can be evaluated: the limits are those of the Mattermost server, strings
  are taken to be ASCII, the classifiers read the subtype of the post, and a range
  visits a map in the order of its association list.
\<close>

definition exampleToLower :: "string \<Rightarrow> string" where
  "exampleToLower s =
     map (\<lambda>c. case map_of (zip ''ABCDEFGHIJKLMNOPQRSTUVWXYZ'' ''abcdefghijklmnopqrstuvwxyz'') c of
                Some l \<Rightarrow> l
              | None \<Rightarrow> c) s"

definition exampleUnmarshal :: "string \<Rightarrow> json option" where
  "exampleUnmarshal s =
     (if s = ''{\"text\":\"hi\",\"last_read\":\"1\"}''
      then Some (JObject [(''text'', JString ''hi''), (''last_read'', JString ''1'')])
      else if s = ''{\"text\":\"hi\",\"subscribed\":true}''
      then Some (JObject [(''text'', JString ''hi''), (''subscribed'', JBool True)])
      else if s = ''{\"text\":\"hi\"}''
      then Some (JObject [(''text'', JString ''hi'')])
      else if s = ''{\"text\":\"ho\"}''
      then Some (JObject [(''text'', JString ''ho'')])
      else None)"

definition exampleMarshal :: "json \<Rightarrow> string option" where
  "exampleMarshal j =
     (if j = JObject [(''text'', JString ''hi'')] then Some ''{\"text\":\"hi\"}''
      else if j = JObject [(''text'', JString ''ho'')] then Some ''{\"text\":\"ho\"}''
      else None)"

definition exampleLib :: Lib where
  "exampleLib =
     \<lparr>ChannelNameMaxLength = 64,
      ChannelDisplayNameMaxRunes = 64,
      ChannelPurposeMaxRunes = 250,
      ChannelHeaderMaxRunes = 1024,
      PostPropsMaxRunes = 800000,
      isValidChannelNameCharacters =
        list_all (\<lambda>c. (CHR ''a'' \<le> c \<and> c \<le> CHR ''z'') \<or> (CHR ''0'' \<le> c \<and> c \<le> CHR ''9'')
                       \<or> c = CHR ''-'' \<or> c = CHR ''_''),
      truncateRunes = (\<lambda>s n. take n s),
      RuneCountInString = length,
      ToLower = exampleToLower,
      NewId = (\<lambda>n. ''id'' @ replicate n (CHR ''x'')),
      Unmarshal = exampleUnmarshal,
      Marshal = exampleMarshal,
      rangeRank = (\<lambda>ks k. 0),
      IsPlainMessage = (\<lambda>p. SlackPost.Type p = ''message'' \<and> SubType p = ''''),
      IsFileComment = (\<lambda>p. SlackPost.Type p = ''message'' \<and> SubType p = ''file_comment''),
      IsBotMessage = (\<lambda>p. SlackPost.Type p = ''message'' \<and> SubType p = ''bot_message''),
      IsJoinLeaveMessage = (\<lambda>p. SlackPost.Type p = ''message''
                                 \<and> (SubType p = ''channel_join'' \<or> SubType p = ''channel_leave'')),
      IsMeMessage = (\<lambda>p. SlackPost.Type p = ''message'' \<and> SubType p = ''me_message''),
      IsChannelTopicMessage = (\<lambda>p. SlackPost.Type p = ''message'' \<and> SubType p = ''channel_topic''),
      IsChannelPurposeMessage = (\<lambda>p. SlackPost.Type p = ''message'' \<and> SubType p = ''channel_purpose''),
      IsChannelNameMessage = (\<lambda>p. SlackPost.Type p = ''message'' \<and> SubType p = ''channel_name''),
      SlackConvertTimeStamp = (\<lambda>ts. 1000 * of_nat (length (takeWhile (\<lambda>c. c \<noteq> CHR ''.'') ts))),
      copiedFiles = (\<lambda>p. []),
      PropsRuneCount = (\<lambda>p. 2)\<rparr>"

definition exampleChannel :: IntermediateChannel where
  "exampleChannel =
     \<lparr>IntermediateChannel.Id = ''C1'', OriginalName = ''general'', Name = ''general'',
      DisplayName = ''general'', Members = [''U1'', ''U2''], MembersUsernames = [],
      Purpose = ''talk'', Header = ''hello'', Topic = '''', Type = ChannelTypeOpen\<rparr>"

definition exampleUser :: IntermediateUser where
  "exampleUser =
     \<lparr>IntermediateUser.Id = ''U1'', Username = ''bob'', FirstName = ''Bob'', LastName = ''Builder'',
      Position = ''Boss'', Email = ''bob@example.com'', Password = ''secret'', Memberships = []\<rparr>"

definition noUserOverride :: IntermediateUser where
  "noUserOverride =
     \<lparr>IntermediateUser.Id = '''', Username = '''', FirstName = '''', LastName = '''',
      Position = '''', Email = '''', Password = '''', Memberships = []\<rparr>"

definition noChannelOverride :: IntermediateChannel where
  "noChannelOverride =
     \<lparr>IntermediateChannel.Id = '''', OriginalName = '''', Name = '''', DisplayName = '''',
      Members = [], MembersUsernames = [], Purpose = '''', Header = '''', Topic = '''',
      Type = ''''\<rparr>"

definition exampleSlackChannel :: SlackChannel where
  "exampleSlackChannel =
     \<lparr>SlackChannel.Id = ''C1'', SlackChannel.Name = ''general'', Creator = ''U1'',
      SlackChannel.Members = [''U1'', ''U2''], SlackChannel.Purpose = \<lparr>Value = ''talk''\<rparr>,
      SlackChannel.Topic = \<lparr>Value = ''hello''\<rparr>, SlackChannel.Type = ChannelTypeOpen\<rparr>"

text \<open>
  An attachment descriptor whose extra blob is one extended-timestamp record (id
  \<open>0x5455\<close>, five bytes of payload).
\<close>

definition exampleZipFile :: zipFile where
  "exampleZipFile =
     \<lparr>zipFile.Name = ''F1/report.txt'', zipFile.Comment = '''', NonUTF8 = False,
      CreatorVersion = 20, ReaderVersion = 20, Flags = 0, CRC32 = 0xCBF43926,
      UncompressedSize64 = 9,
      Extra = [0x55, 0x54, 0x05, 0x00, 0x01, 0x10, 0x20, 0x30, 0x40],
      ExternalAttrs = 0\<rparr>"

definition examplePost :: SlackPost where
  "examplePost =
     \<lparr>SlackPost.User = ''U1'', BotId = '''', Text = ''hi'', TimeStamp = ''1549307811.074100'',
      ThreadTS = '''', SlackPost.Type = ''message'', SubType = '''', SlackPost.Comment = None,
      File = None, Files = None, SlackPost.Attachments = None, SlackPost.Reactions = None,
      Original = ''{\"text\":\"hi\"}''\<rparr>"

definition exampleSlackUser :: SlackUser where
  "exampleSlackUser =
     \<lparr>SlackUser.Id = ''U1'', SlackUser.Username = ''bob'', IsBot = False,
      Profile = \<lparr>BotID = '''', SlackProfile.FirstName = ''Bob'', SlackProfile.LastName = ''Builder'',
                 Title = ''Boss'', SlackProfile.Email = ''bob@example.com''\<rparr>\<rparr>"

definition exampleExport :: SlackExport where
  "exampleExport =
     \<lparr>TeamName = ''acme'', Channels = [exampleSlackChannel],
      PublicChannels = [exampleSlackChannel], PrivateChannels = [], GroupChannels = [],
      DirectChannels = [], Users = [exampleSlackUser],
      Posts = [(''general'', [examplePost])], Uploads = [(''F1'', exampleZipFile)]\<rparr>"

section \<open>Specification of an override\<close>

text \<open>
  What the spec says an override does to one field: an empty override value leaves the
  field alone, any other value replaces it (\<open>overridden\<close>); where a single dash is the
  sentinel, it clears the field instead (\<open>overriddenOrCleared\<close>).
\<close>

definition overridden :: "string \<Rightarrow> string \<Rightarrow> string" where
  "overridden ov cur = (if ov = '''' then cur else ov)"

definition overriddenOrCleared :: "string \<Rightarrow> string \<Rightarrow> string" where
  "overriddenOrCleared ov cur = (if ov = '''' then cur else if ov = ''-'' then '''' else ov)"

section \<open>Specification of the extra field records\<close>





section \<open>Specification of merging copies of one export\<close>

text \<open>
  The conditions under which an export merges with a copy of itself: identity keys are
  distinct within every list (and the association lists are maps), the raw-original
  capture of every post unmarshals and marshals again after the volatile keys are
  deleted, and the checksum of every upload is known.
\<close>

definition comparableOriginal :: "Lib \<Rightarrow> SlackPost \<Rightarrow> bool" where
  "comparableOriginal lib p =
     (case Unmarshal lib (Original p) of
        None \<Rightarrow> False
      | Some doc \<Rightarrow> Marshal lib (stripVolatile doc) \<noteq> None)"

definition mergeableWithItself :: "Lib \<Rightarrow> SlackExport \<Rightarrow> bool" where
  "mergeableWithItself lib e =
     (distinct (map SlackChannel.Id (Channels e))
      \<and> distinct (map SlackChannel.Id (PublicChannels e))
      \<and> distinct (map SlackChannel.Id (PrivateChannels e))
      \<and> distinct (map SlackChannel.Id (GroupChannels e))
      \<and> distinct (map SlackChannel.Id (DirectChannels e))
      \<and> distinct (map SlackUser.Id (Users e))
      \<and> distinct (map fst (Posts e))
      \<and> list_all (\<lambda>kv. distinct (map TimeStamp (snd kv))
                       \<and> list_all (comparableOriginal lib) (snd kv)) (Posts e)
      \<and> distinct (map fst (Uploads e))
      \<and> list_all (\<lambda>kv. CRC32 (snd kv) \<noteq> 0) (Uploads e))"

text \<open>
  Two exports that are equal up to the order of the elements of their lists: the same
  team name, channel lists, user list and post lists that are permutations of each
  other, and the same uploads. The maps of posts and of uploads are compared key by key
  (in the order of their association lists).
\<close>

definition samePostLists :: "string \<times> SlackPost list \<Rightarrow> string \<times> SlackPost list \<Rightarrow> bool" where
  "samePostLists p q = (fst p = fst q \<and> mset (snd p) = mset (snd q))"

definition sameUpToOrder :: "SlackExport \<Rightarrow> SlackExport \<Rightarrow> bool" where
  "sameUpToOrder r e =
     (TeamName r = TeamName e
      \<and> mset (Channels r) = mset (Channels e)
      \<and> mset (PublicChannels r) = mset (PublicChannels e)
      \<and> mset (PrivateChannels r) = mset (PrivateChannels e)
      \<and> mset (GroupChannels r) = mset (GroupChannels e)
      \<and> mset (DirectChannels r) = mset (DirectChannels e)
      \<and> mset (Users r) = mset (Users e)
      \<and> list_all2 samePostLists (Posts r) (Posts e)
      \<and> Uploads r = Uploads e)"

section \<open>Specification of the timestamps of a channel\<close>

text \<open>
  The creation timestamps of all posts that the map \<open>threads\<close> holds, roots and replies,
  in the order of the map.
\<close>

definition threadCreateAts :: "(string \<times> IntermediatePost) list \<Rightarrow> 64 word list" where
  "threadCreateAts threads = map CreateAt (emittedPosts (map snd threads))"










text \<open>A transformer with an empty user index and no overrides.\<close>

definition exampleTransformer :: Transformer where
  "exampleTransformer = \<lparr>UsersById = [], UserOverrides = [], NewIdCalls = 0\<rparr>"

section \<open>Sanitising a direct channel\<close>

text \<open>
  Claim C10. \<open>Sanitise\<close> on a channel whose type is direct returns at once: the channel
  comes back with every field as it was (no trimming, no prefix, no fallback to the id,
  no truncation), and no warning is logged.
\<close>

theorem Sanitise_direct_noop:
  "Type c = ChannelTypeDirect \<Longrightarrow> Sanitise lib c = (c, [])"
  by (simp add: Sanitise_def)

text \<open>
  A direct channel whose name would be trimmed and prefixed if it were of any other type.
\<close>

theorem Sanitise_direct_noop_witness:
  "Type (exampleChannel\<lparr>Name := ''_x'', Type := ChannelTypeDirect\<rparr>) = ChannelTypeDirect
   \<and> Sanitise exampleLib (exampleChannel\<lparr>Name := ''_x'', Type := ChannelTypeDirect\<rparr>)
       = (exampleChannel\<lparr>Name := ''_x'', Type := ChannelTypeDirect\<rparr>, [])"
  using Sanitise_direct_noop [of "exampleChannel\<lparr>Name := ''_x'', Type := ChannelTypeDirect\<rparr>" exampleLib]
  by simp

section \<open>Applying overrides\<close>

text \<open>
  Claim C8, as the code has it. When the override tables have an entry for the user
  (under its username) and for the channel (under its name), every override field that is
  not empty replaces the field of the target, and an empty one leaves it alone. A single
  dash clears the field for all five fields of a channel override and for the first name,
  the last name and the position of a user override; the username, the email and the
  password of a user override are copied as they are, a single dash included.
\<close>

theorem overrides_applied:
  assumes "map_of userOverrides (Username user) = Some ou"
      and "map_of channelOverrides (Name channel) = Some oc"
  shows "ApplyUserOverrides userOverrides user =
           user\<lparr>Username := overridden (Username ou) (Username user),
                FirstName := overriddenOrCleared (FirstName ou) (FirstName user),
                LastName := overriddenOrCleared (LastName ou) (LastName user),
                Position := overriddenOrCleared (Position ou) (Position user),
                Email := overridden (Email ou) (Email user),
                Password := overridden (Password ou) (Password user)\<rparr>
       \<and> ApplyChannelOverrides channelOverrides channel =
           channel\<lparr>Name := overriddenOrCleared (Name oc) (Name channel),
                   DisplayName := overriddenOrCleared (DisplayName oc) (DisplayName channel),
                   Purpose := overriddenOrCleared (Purpose oc) (Purpose channel),
                   Header := overriddenOrCleared (Header oc) (Header channel),
                   Topic := overriddenOrCleared (Topic oc) (Topic channel)\<rparr>"
proof
  from assms(1) have "userOverrides \<noteq> []" by auto
  with assms(1) show "ApplyUserOverrides userOverrides user =
           user\<lparr>Username := overridden (Username ou) (Username user),
                FirstName := overriddenOrCleared (FirstName ou) (FirstName user),
                LastName := overriddenOrCleared (LastName ou) (LastName user),
                Position := overriddenOrCleared (Position ou) (Position user),
                Email := overridden (Email ou) (Email user),
                Password := overridden (Password ou) (Password user)\<rparr>"
    by (simp add: ApplyUserOverrides_def overridden_def overriddenOrCleared_def Let_def)
  from assms(2) have "channelOverrides \<noteq> []" by auto
  with assms(2) show "ApplyChannelOverrides channelOverrides channel =
           channel\<lparr>Name := overriddenOrCleared (Name oc) (Name channel),
                   DisplayName := overriddenOrCleared (DisplayName oc) (DisplayName channel),
                   Purpose := overriddenOrCleared (Purpose oc) (Purpose channel),
                   Header := overriddenOrCleared (Header oc) (Header channel),
                   Topic := overriddenOrCleared (Topic oc) (Topic channel)\<rparr>"
    by (simp add: ApplyChannelOverrides_def overridden_def overriddenOrCleared_def Let_def)
qed

theorem overrides_applied_witness:
  "map_of [(''bob'', noUserOverride\<lparr>Username := ''robert'', FirstName := ''-'', Email := ''-''\<rparr>)]
      (Username exampleUser)
     = Some (noUserOverride\<lparr>Username := ''robert'', FirstName := ''-'', Email := ''-''\<rparr>)
   \<and> map_of [(''general'', noChannelOverride\<lparr>Name := ''-'', Purpose := ''work''\<rparr>)]
      (Name exampleChannel)
     = Some (noChannelOverride\<lparr>Name := ''-'', Purpose := ''work''\<rparr>)
   \<and> ApplyUserOverrides
        [(''bob'', noUserOverride\<lparr>Username := ''robert'', FirstName := ''-'', Email := ''-''\<rparr>)]
        exampleUser
     = exampleUser\<lparr>Username := ''robert'', FirstName := '''', Email := ''-''\<rparr>
   \<and> ApplyChannelOverrides
        [(''general'', noChannelOverride\<lparr>Name := ''-'', Purpose := ''work''\<rparr>)] exampleChannel
     = exampleChannel\<lparr>Name := '''', Purpose := ''work''\<rparr>"
proof -
  have u: "map_of [(''bob'', noUserOverride\<lparr>Username := ''robert'', FirstName := ''-'', Email := ''-''\<rparr>)]
      (Username exampleUser)
     = Some (noUserOverride\<lparr>Username := ''robert'', FirstName := ''-'', Email := ''-''\<rparr>)"
    by (simp add: exampleUser_def)
  have c: "map_of [(''general'', noChannelOverride\<lparr>Name := ''-'', Purpose := ''work''\<rparr>)]
      (Name exampleChannel)
     = Some (noChannelOverride\<lparr>Name := ''-'', Purpose := ''work''\<rparr>)"
    by (simp add: exampleChannel_def)
  show ?thesis
    using overrides_applied [OF u c] u c
    by (simp add: overridden_def overriddenOrCleared_def noUserOverride_def noChannelOverride_def
        exampleUser_def exampleChannel_def)
qed

text \<open>
  Claim C8 as stated fails: a user override whose email is a single dash stores the
  dash, it does not clear the email.
\<close>

theorem ApplyUserOverrides_dash_counterexample:
  "Email (ApplyUserOverrides [(''bob'', noUserOverride\<lparr>Email := ''-''\<rparr>)] exampleUser) = ''-''"
  by (simp add: ApplyUserOverrides_def noUserOverride_def exampleUser_def)

section \<open>Member lists in channel reconciliation\<close>

lemma sort_eq_iff_mset_eq:
  fixes xs ys :: "'a::linorder list"
  shows "sort xs = sort ys \<longleftrightarrow> mset xs = mset ys"
proof
  assume "sort xs = sort ys"
  then have "mset (sort xs) = mset (sort ys)" by simp
  then show "mset xs = mset ys" by simp
next
  assume "mset xs = mset ys"
  then have "mset (sort ys) = mset xs" by simp
  then show "sort xs = sort ys"
    by (rule properties_for_sort) simp
qed

text \<open>
  Claim C3, as the code has it. \<open>mergeChannel\<close> sorts the two member lists and compares
  them, without removing duplicates: the lists are equal for it iff they hold the same
  member ids with the same number of occurrences, in any order. So for two channels that
  are identical in id, name, creator, purpose, topic and type, \<open>mergeChannel\<close> succeeds
  (with its first argument) when the member lists are permutations of each other, and
  fails with the members conflict otherwise, in particular whenever the sets of member ids
  differ.
\<close>

theorem mergeChannel_members:
  assumes "SlackChannel.Id a = SlackChannel.Id b"
      and "SlackChannel.Name a = SlackChannel.Name b"
      and "Creator a = Creator b"
      and "SlackChannel.Purpose a = SlackChannel.Purpose b"
      and "SlackChannel.Topic a = SlackChannel.Topic b"
      and "SlackChannel.Type a = SlackChannel.Type b"
  shows "(mset (SlackChannel.Members a) = mset (SlackChannel.Members b)
            \<longrightarrow> mergeChannel a b = Inr a)
       \<and> (mset (SlackChannel.Members a) \<noteq> mset (SlackChannel.Members b)
            \<longrightarrow> mergeChannel a b =
                Inl (ChannelMembersDiffer (SlackChannel.Members a) (SlackChannel.Members b)))
       \<and> (set (SlackChannel.Members a) \<noteq> set (SlackChannel.Members b)
            \<longrightarrow> mergeChannel a b =
                Inl (ChannelMembersDiffer (SlackChannel.Members a) (SlackChannel.Members b)))"
proof -
  have differ: "mergeChannel a b =
      Inl (ChannelMembersDiffer (SlackChannel.Members a) (SlackChannel.Members b))"
    if "mset (SlackChannel.Members a) \<noteq> mset (SlackChannel.Members b)"
    using that assms by (simp add: mergeChannel_def cloneSlice_def sort_eq_iff_mset_eq)
  have same: "mergeChannel a b = Inr a"
    if "mset (SlackChannel.Members a) = mset (SlackChannel.Members b)"
    using that assms by (simp add: mergeChannel_def cloneSlice_def sort_eq_iff_mset_eq)
  have "mset (SlackChannel.Members a) \<noteq> mset (SlackChannel.Members b)"
    if "set (SlackChannel.Members a) \<noteq> set (SlackChannel.Members b)"
    using that by (metis set_mset_mset)
  with differ same show ?thesis by blast
qed

text \<open>Two channels that differ in the order of their members only.\<close>

theorem mergeChannel_members_witness:
  "mset (SlackChannel.Members (exampleSlackChannel\<lparr>SlackChannel.Members := [''U2'', ''U1'']\<rparr>))
     = mset (SlackChannel.Members exampleSlackChannel)
   \<and> mergeChannel (exampleSlackChannel\<lparr>SlackChannel.Members := [''U2'', ''U1'']\<rparr>)
        exampleSlackChannel
     = Inr (exampleSlackChannel\<lparr>SlackChannel.Members := [''U2'', ''U1'']\<rparr>)
   \<and> set (SlackChannel.Members (exampleSlackChannel\<lparr>SlackChannel.Members := [''U3'', ''U1'']\<rparr>))
     \<noteq> set (SlackChannel.Members exampleSlackChannel)
   \<and> mergeChannel (exampleSlackChannel\<lparr>SlackChannel.Members := [''U3'', ''U1'']\<rparr>)
        exampleSlackChannel
     = Inl (ChannelMembersDiffer [''U3'', ''U1''] [''U1'', ''U2''])"
proof -
  have m: "mset (SlackChannel.Members (exampleSlackChannel\<lparr>SlackChannel.Members := [''U2'', ''U1'']\<rparr>))
     = mset (SlackChannel.Members exampleSlackChannel)"
    by (simp add: exampleSlackChannel_def)
  have s: "set (SlackChannel.Members (exampleSlackChannel\<lparr>SlackChannel.Members := [''U3'', ''U1'']\<rparr>))
     \<noteq> set (SlackChannel.Members exampleSlackChannel)"
  proof -
    have "''U3'' \<in> set [''U3'', ''U1'']" by simp
    moreover have "''U3'' \<notin> set [''U1'', ''U2'']" by simp
    ultimately have "set [''U3'', ''U1''] \<noteq> set [''U1'', ''U2'']" by blast
    then show ?thesis by (simp add: exampleSlackChannel_def)
  qed
  have e: "SlackChannel.Members exampleSlackChannel = [''U1'', ''U2'']"
    by (simp add: exampleSlackChannel_def)
  have h: "SlackChannel.Id c = SlackChannel.Id exampleSlackChannel
      \<and> SlackChannel.Name c = SlackChannel.Name exampleSlackChannel
      \<and> Creator c = Creator exampleSlackChannel
      \<and> SlackChannel.Purpose c = SlackChannel.Purpose exampleSlackChannel
      \<and> SlackChannel.Topic c = SlackChannel.Topic exampleSlackChannel
      \<and> SlackChannel.Type c = SlackChannel.Type exampleSlackChannel"
    if "c = exampleSlackChannel\<lparr>SlackChannel.Members := ms\<rparr>" for c ms
    using that by simp
  note t1 = mergeChannel_members [of "exampleSlackChannel\<lparr>SlackChannel.Members := [''U2'', ''U1'']\<rparr>"
        exampleSlackChannel]
  note t2 = mergeChannel_members [of "exampleSlackChannel\<lparr>SlackChannel.Members := [''U3'', ''U1'']\<rparr>"
        exampleSlackChannel]
  have r1: "mergeChannel (exampleSlackChannel\<lparr>SlackChannel.Members := [''U2'', ''U1'']\<rparr>)
        exampleSlackChannel
     = Inr (exampleSlackChannel\<lparr>SlackChannel.Members := [''U2'', ''U1'']\<rparr>)"
    using t1 h [OF refl] m by blast
  have r2: "mergeChannel (exampleSlackChannel\<lparr>SlackChannel.Members := [''U3'', ''U1'']\<rparr>)
        exampleSlackChannel
     = Inl (ChannelMembersDiffer
         (SlackChannel.Members (exampleSlackChannel\<lparr>SlackChannel.Members := [''U3'', ''U1'']\<rparr>))
         (SlackChannel.Members exampleSlackChannel))"
    using t2 h [OF refl] s by blast
  from r2 have r2': "mergeChannel (exampleSlackChannel\<lparr>SlackChannel.Members := [''U3'', ''U1'']\<rparr>)
        exampleSlackChannel
     = Inl (ChannelMembersDiffer [''U3'', ''U1''] [''U1'', ''U2''])"
    by (simp add: e)
  from m r1 s r2' show ?thesis by blast
qed

text \<open>
  Claim C3 as stated fails: two channels identical in every scalar field whose member
  lists hold the same set of ids (and are equal once duplicates are removed and the rest
  is sorted), one of them with a repeated entry, do not merge.
\<close>

theorem mergeChannel_repeated_member_counterexample:
  "set (SlackChannel.Members (exampleSlackChannel\<lparr>SlackChannel.Members := [''U1'', ''U2'', ''U1'']\<rparr>))
     = set (SlackChannel.Members exampleSlackChannel)
   \<and> sort (remdups (SlackChannel.Members
        (exampleSlackChannel\<lparr>SlackChannel.Members := [''U1'', ''U2'', ''U1'']\<rparr>)))
     = sort (remdups (SlackChannel.Members exampleSlackChannel))
   \<and> mergeChannel (exampleSlackChannel\<lparr>SlackChannel.Members := [''U1'', ''U2'', ''U1'']\<rparr>)
        exampleSlackChannel
     = Inl (ChannelMembersDiffer [''U1'', ''U2'', ''U1''] [''U1'', ''U2''])"
  by (auto simp: exampleSlackChannel_def mergeChannel_def cloneSlice_def)

section \<open>The millisecond conversion of the spec\<close>

lemma isDigit_not_dot: "isDigit c \<Longrightarrow> c \<noteq> CHR ''.''"
  by (auto simp: isDigit_def less_eq_char_def)

lemma takeWhile_not_dot_digits:
  "list_all isDigit whole \<Longrightarrow> takeWhile (\<lambda>c. c \<noteq> CHR ''.'') (whole @ CHR ''.'' # digits) = whole"
  by (induction whole) (auto dest: isDigit_not_dot)

lemma dropWhile_not_dot_digits:
  "list_all isDigit whole \<Longrightarrow> dropWhile (\<lambda>c. c \<noteq> CHR ''.'') (whole @ CHR ''.'' # digits) = CHR ''.'' # digits"
  by (induction whole) (auto dest: isDigit_not_dot)

lemma takeWhile_not_dot_all:
  "list_all isDigit whole \<Longrightarrow> takeWhile (\<lambda>c. c \<noteq> CHR ''.'') whole = whole"
  by (induction whole) (auto dest: isDigit_not_dot)

lemma dropWhile_not_dot_all:
  "list_all isDigit whole \<Longrightarrow> dropWhile (\<lambda>c. c \<noteq> CHR ''.'') whole = []"
  by (induction whole) (auto dest: isDigit_not_dot)

lemma floor_numeral_divide:
  "\<lfloor>numeral a / numeral b :: rat\<rfloor> = numeral a div numeral b"
  using floor_divide_of_int_eq [of "numeral a" "numeral b", where ?'a = rat] by simp

lemmas timestamp_eval =
  SlackConvertTimeStamp_spec_def parseSeconds_def roundHalfAway_def digitsValue_def
  digitValue_def isDigit_def less_eq_char_def floor_numeral_divide

lemma parseSeconds_nonneg: "parseSeconds ts = Some v \<Longrightarrow> 0 \<le> v"
  by (auto simp: parseSeconds_def Let_def split: if_splits)

text \<open>
  Claim C6, on the conversion as the spec describes it. When the argument is not a
  decimal number the result is the sentinel 1. When it is, with value \<open>v\<close> seconds, the
  result is \<open>v * 1000\<close> rounded to the nearest integer, a tie going up (the value is not
  negative, so up is away from zero). A run of digits parses to its value, and a run of
  digits, a dot and a possibly empty run of digits parses to the value with that
  fraction. The examples of the claim and the remaining cases of the test table follow.
\<close>

theorem SlackConvertTimeStamp_spec_rounds:
  "(parseSeconds ts = None \<longrightarrow> SlackConvertTimeStamp_spec ts = 1)
   \<and> (parseSeconds ts = Some v \<longrightarrow>
        0 \<le> v \<and> SlackConvertTimeStamp_spec ts = \<lfloor>v * 1000 + 1 / 2\<rfloor>)
   \<and> (whole \<noteq> [] \<and> list_all isDigit whole \<and> list_all isDigit digits \<longrightarrow>
        parseSeconds whole = Some (of_nat (digitsValue whole))
        \<and> parseSeconds (whole @ ''.'' @ digits) =
            Some (of_nat (digitsValue whole) + of_nat (digitsValue digits) / 10 ^ length digits))
   \<and> SlackConvertTimeStamp_spec ''asd'' = 1
   \<and> SlackConvertTimeStamp_spec ''1549307811'' = 1549307811000
   \<and> SlackConvertTimeStamp_spec ''1549307811.074100'' = 1549307811074
   \<and> SlackConvertTimeStamp_spec ''1549307811.074500'' = 1549307811075
   \<and> SlackConvertTimeStamp_spec ''1549307811.12345'' = 1549307811123
   \<and> SlackConvertTimeStamp_spec ''1549307811.'' = 1549307811000
   \<and> SlackConvertTimeStamp_spec ''1549307811.1'' = 1549307811100
   \<and> SlackConvertTimeStamp_spec ''1549307811.12'' = 1549307811120
   \<and> SlackConvertTimeStamp_spec ''1549307811.123'' = 1549307811123
   \<and> SlackConvertTimeStamp_spec ''1549307811.1234'' = 1549307811123"
proof -
  have fail: "parseSeconds ts = None \<longrightarrow> SlackConvertTimeStamp_spec ts = 1"
    by (simp add: SlackConvertTimeStamp_spec_def)
  have ok: "parseSeconds ts = Some v \<longrightarrow>
        0 \<le> v \<and> SlackConvertTimeStamp_spec ts = \<lfloor>v * 1000 + 1 / 2\<rfloor>"
  proof
    assume p: "parseSeconds ts = Some v"
    then have "0 \<le> v" by (rule parseSeconds_nonneg)
    then have "\<not> v * 1000 < 0" by simp
    with p \<open>0 \<le> v\<close> show "0 \<le> v \<and> SlackConvertTimeStamp_spec ts = \<lfloor>v * 1000 + 1 / 2\<rfloor>"
      by (simp add: SlackConvertTimeStamp_spec_def roundHalfAway_def)
  qed
  have parse: "whole \<noteq> [] \<and> list_all isDigit whole \<and> list_all isDigit digits \<longrightarrow>
        parseSeconds whole = Some (of_nat (digitsValue whole))
        \<and> parseSeconds (whole @ ''.'' @ digits) =
            Some (of_nat (digitsValue whole) + of_nat (digitsValue digits) / 10 ^ length digits)"
    by (simp add: parseSeconds_def takeWhile_not_dot_digits dropWhile_not_dot_digits
        takeWhile_not_dot_all dropWhile_not_dot_all digitsValue_def)
  have e0: "SlackConvertTimeStamp_spec ''asd'' = 1" by (simp add: timestamp_eval)
  have e1: "SlackConvertTimeStamp_spec ''1549307811'' = 1549307811000" by (simp add: timestamp_eval)
  have e2: "SlackConvertTimeStamp_spec ''1549307811.074100'' = 1549307811074" by (simp add: timestamp_eval)
  have e3: "SlackConvertTimeStamp_spec ''1549307811.074500'' = 1549307811075" by (simp add: timestamp_eval)
  have e4: "SlackConvertTimeStamp_spec ''1549307811.12345'' = 1549307811123" by (simp add: timestamp_eval)
  have e5: "SlackConvertTimeStamp_spec ''1549307811.'' = 1549307811000" by (simp add: timestamp_eval)
  have e6: "SlackConvertTimeStamp_spec ''1549307811.1'' = 1549307811100" by (simp add: timestamp_eval)
  have e7: "SlackConvertTimeStamp_spec ''1549307811.12'' = 1549307811120" by (simp add: timestamp_eval)
  have e8: "SlackConvertTimeStamp_spec ''1549307811.123'' = 1549307811123" by (simp add: timestamp_eval)
  have e9: "SlackConvertTimeStamp_spec ''1549307811.1234'' = 1549307811123" by (simp add: timestamp_eval)
  show ?thesis
    using fail ok parse e0 e1 e2 e3 e4 e5 e6 e7 e8 e9 by (intro conjI) assumption+
qed

text \<open>
  The theorem at a timestamp that is a tie, \<open>1549307811.0745\<close> seconds, and at one that
  does not parse.
\<close>

theorem SlackConvertTimeStamp_spec_rounds_witness:
  "parseSeconds ''asd'' = None
   \<and> SlackConvertTimeStamp_spec ''asd'' = 1
   \<and> ''1549307811'' \<noteq> [] \<and> list_all isDigit ''1549307811'' \<and> list_all isDigit ''074500''
   \<and> parseSeconds (''1549307811'' @ ''.'' @ ''074500'') = Some (3098615622149 / 2000)
   \<and> 0 \<le> (3098615622149 / 2000 :: rat)
   \<and> SlackConvertTimeStamp_spec (''1549307811'' @ ''.'' @ ''074500'')
      = \<lfloor>(3098615622149 / 2000 :: rat) * 1000 + 1 / 2\<rfloor>"
proof -
  have n: "parseSeconds ''asd'' = None" by (simp add: timestamp_eval)
  have d: "''1549307811'' \<noteq> [] \<and> list_all isDigit ''1549307811'' \<and> list_all isDigit ''074500''"
    by (simp add: timestamp_eval)
  have p: "parseSeconds (''1549307811'' @ ''.'' @ ''074500'') = Some (3098615622149 / 2000)"
    by (simp add: timestamp_eval)
  note t1 = SlackConvertTimeStamp_spec_rounds [of "''asd''" 0 "''1549307811''" "''074500''"]
  note t2 = SlackConvertTimeStamp_spec_rounds
    [of "''1549307811'' @ ''.'' @ ''074500''" "3098615622149 / 2000" "''1549307811''" "''074500''"]
  from t2 p have r: "0 \<le> (3098615622149 / 2000 :: rat)
     \<and> SlackConvertTimeStamp_spec (''1549307811'' @ ''.'' @ ''074500'')
        = \<lfloor>(3098615622149 / 2000 :: rat) * 1000 + 1 / 2\<rfloor>"
    by blast
  from t1 n have s: "SlackConvertTimeStamp_spec ''asd'' = 1" by blast
  from n s d p r show ?thesis by blast
qed

section \<open>Extra fields in attachment reconciliation\<close>















lemma sliceEquals_iff: "sliceEquals a b \<longleftrightarrow> a = b"
proof (induction a arbitrary: b)
  case Nil
  show ?case by (auto simp: sliceEquals_def)
next
  case (Cons x xs)
  have step: "sliceEquals (x # xs) (y # ys) \<longleftrightarrow> x = y \<and> sliceEquals xs ys" for y ys
    by (auto simp: sliceEquals_def)
  show ?case
  proof (cases b)
    case Nil
    then show ?thesis by (simp add: sliceEquals_def)
  next
    case (Cons y ys)
    then show ?thesis using step [of y ys] Cons.IH [of ys] by simp
  qed
qed




section \<open>Post reconciliation\<close>

lemma map_of_delete_key: "map_of (AList.delete k m) k' = (if k' = k then None else map_of m k')"
  by (simp add: delete_conv')

lemma deleteBlockId_keys:
  "deleteBlockId (JObject blockMap) = JObject (AList.delete ''block_id'' blockMap)"
  "\<And>v. deleteBlockId (JArray v) = JArray v"
  "\<And>v. deleteBlockId (JString v) = JString v"
  "\<And>v. deleteBlockId (JNumber v) = JNumber v"
  "\<And>v. deleteBlockId (JBool v) = JBool v"
  "deleteBlockId JNull = JNull"
  by (simp_all add: deleteBlockId_def)

lemma stripVolatile_keys:
  "\<exists>m'. stripVolatile (JObject m) = JObject m'
     \<and> (\<forall>k. map_of m' k =
           (if k = ''last_read'' \<or> k = ''subscribed'' then None
            else if k = ''blocks''
            then (case map_of m ''blocks'' of
                    Some (JArray blocks) \<Rightarrow> Some (JArray (map deleteBlockId blocks))
                  | other \<Rightarrow> other)
            else map_of m k))"
  by (auto simp: stripVolatile_def Let_def map_of_delete_key update_conv'
      split: option.splits json.splits)

text \<open>
  The comparison of the blanked posts is \<open>reflect.DeepEqual\<close>: two posts that differ
  only in that the list of files of one is nil and that of the other is empty do not
  merge.
\<close>

lemma mergePost_nil_and_empty_slice:
  "mergePost lib (p\<lparr>Files := None\<rparr>) (p\<lparr>Files := Some []\<rparr>)
     = Inl (PostsUnequal (p\<lparr>Files := None\<rparr>) (p\<lparr>Files := Some []\<rparr>))"
proof -
  have "Files ((p\<lparr>Files := None\<rparr>)\<lparr>Original := ''''\<rparr>)
      \<noteq> Files ((p\<lparr>Files := Some []\<rparr>)\<lparr>Original := ''''\<rparr>)"
    by simp
  then have "(p\<lparr>Files := None\<rparr>)\<lparr>Original := ''''\<rparr> \<noteq> (p\<lparr>Files := Some []\<rparr>)\<lparr>Original := ''''\<rparr>"
    by metis
  then show ?thesis by (simp add: mergePost_def Let_def)
qed

text \<open>
  Claim C4. \<open>mergePost\<close> succeeds, with its first argument, iff the two posts are equal
  once their raw-original captures are blanked, both captures unmarshal, and the two
  documents marshal to the same string after the volatile keys are deleted. The deletion
  turns a document with the top-level keys \<open>m\<close> into one without \<open>last_read\<close> and
  \<open>subscribed\<close>, whose \<open>blocks\<close>, when an array, has lost the key \<open>block_id\<close> in
  every entry that is an object, and that is otherwise as \<open>m\<close>; a nil document stays nil.
  In every other case the merge fails.
\<close>

theorem mergePost_succeeds_iff:
  "(mergePost lib a b = Inr r
      \<longleftrightarrow> r = a \<and> a\<lparr>Original := ''''\<rparr> = b\<lparr>Original := ''''\<rparr>
          \<and> (\<exists>m1 m2 s. Unmarshal lib (Original a) = Some m1
                \<and> Unmarshal lib (Original b) = Some m2
                \<and> Marshal lib (stripVolatile m1) = Some s
                \<and> Marshal lib (stripVolatile m2) = Some s))
   \<and> (\<exists>e. mergePost lib a b = Inl e \<or> mergePost lib a b = Inr a)
   \<and> (\<exists>m'. stripVolatile (JObject m) = JObject m'
         \<and> (\<forall>k. map_of m' k =
               (if k = ''last_read'' \<or> k = ''subscribed'' then None
                else if k = ''blocks''
                then (case map_of m ''blocks'' of
                        Some (JArray blocks) \<Rightarrow> Some (JArray (map deleteBlockId blocks))
                      | other \<Rightarrow> other)
                else map_of m k)))
   \<and> deleteBlockId (JObject blockMap) = JObject (AList.delete ''block_id'' blockMap)
   \<and> stripVolatile JNull = JNull"
proof -
  have iff: "mergePost lib a b = Inr r
      \<longleftrightarrow> r = a \<and> a\<lparr>Original := ''''\<rparr> = b\<lparr>Original := ''''\<rparr>
          \<and> (\<exists>m1 m2 s. Unmarshal lib (Original a) = Some m1
                \<and> Unmarshal lib (Original b) = Some m2
                \<and> Marshal lib (stripVolatile m1) = Some s
                \<and> Marshal lib (stripVolatile m2) = Some s)"
    by (auto simp: mergePost_def postOriginalEquivalent_def Let_def
        split: option.splits sum.splits if_splits)
  have total: "\<exists>e. mergePost lib a b = Inl e \<or> mergePost lib a b = Inr a"
    by (auto simp: mergePost_def postOriginalEquivalent_def Let_def
        split: option.splits sum.splits if_splits)
  have nil: "stripVolatile JNull = JNull"
    by (simp add: stripVolatile_def)
  show ?thesis
    using iff total stripVolatile_keys [of m] deleteBlockId_keys(1) [of blockMap] nil
    by (intro conjI) assumption+
qed

text \<open>
  Two captures of one post that differ in \<open>last_read\<close> and \<open>subscribed\<close> only: the
  posts merge.
\<close>

theorem mergePost_succeeds_iff_witness:
  "mergePost exampleLib
     (examplePost\<lparr>Original := ''{\"text\":\"hi\",\"last_read\":\"1\"}''\<rparr>)
     (examplePost\<lparr>Original := ''{\"text\":\"hi\",\"subscribed\":true}''\<rparr>)
   = Inr (examplePost\<lparr>Original := ''{\"text\":\"hi\",\"last_read\":\"1\"}''\<rparr>)"
proof -
  let ?a = "examplePost\<lparr>Original := ''{\"text\":\"hi\",\"last_read\":\"1\"}''\<rparr>"
  let ?b = "examplePost\<lparr>Original := ''{\"text\":\"hi\",\"subscribed\":true}''\<rparr>"
  have eq: "?a\<lparr>Original := ''''\<rparr> = ?b\<lparr>Original := ''''\<rparr>" by simp
  have u1: "Unmarshal exampleLib (Original ?a)
      = Some (JObject [(''text'', JString ''hi''), (''last_read'', JString ''1'')])"
    by (simp add: exampleLib_def exampleUnmarshal_def)
  have u2: "Unmarshal exampleLib (Original ?b)
      = Some (JObject [(''text'', JString ''hi''), (''subscribed'', JBool True)])"
    by (simp add: exampleLib_def exampleUnmarshal_def)
  have s1: "Marshal exampleLib
        (stripVolatile (JObject [(''text'', JString ''hi''), (''last_read'', JString ''1'')]))
      = Some ''{\"text\":\"hi\"}''"
    by (simp add: exampleLib_def exampleMarshal_def stripVolatile_def)
  have s2: "Marshal exampleLib
        (stripVolatile (JObject [(''text'', JString ''hi''), (''subscribed'', JBool True)]))
      = Some ''{\"text\":\"hi\"}''"
    by (simp add: exampleLib_def exampleMarshal_def stripVolatile_def)
  note t = mergePost_succeeds_iff [of exampleLib ?a ?b ?a "[]" "[]"]
  from t eq u1 u2 s1 s2 show ?thesis by blast
qed

section \<open>Team names\<close>

lemma mergeExport_TeamName:
  "mergeExport lib result slackExport = Inr r \<Longrightarrow> TeamName r = TeamName result"
  by (auto simp: mergeExport_def split: if_splits sum.splits)

lemma mergeExports_TeamName:
  "mergeExports lib result exports = Inr r \<Longrightarrow> TeamName r = TeamName result"
  by (induction exports arbitrary: result)
     (auto split: sum.splits dest: mergeExport_TeamName)

lemma mergeExports_append:
  "mergeExports lib result (pre @ post) =
     (case mergeExports lib result pre of
        Inl err \<Rightarrow> Inl err
      | Inr r \<Rightarrow> mergeExports lib r post)"
  by (induction pre arbitrary: result) (auto split: sum.splits)

text \<open>The copy of the first export that the loop starts from is the export itself.\<close>

lemma first_copy:
  "\<lparr>TeamName = TeamName e, Channels = cloneSlice (Channels e),
    PublicChannels = cloneSlice (PublicChannels e),
    PrivateChannels = cloneSlice (PrivateChannels e),
    GroupChannels = cloneSlice (GroupChannels e),
    DirectChannels = cloneSlice (DirectChannels e),
    Users = cloneSlice (Users e), Posts = cloneMap (Posts e),
    Uploads = cloneMap (Uploads e)\<rparr> = e"
  by (simp add: cloneSlice_def cloneMap_def)

lemma MergeSlackExports_fold:
  "MergeSlackExports lib (first # rest) = mergeExports lib first rest"
  by (cases rest) (simp_all add: first_copy)

text \<open>
  Claim C5, as the code has it. Without a snapshot the merge fails. In every step of the
  fold the team name of the snapshot is compared with the one of the result before any
  of its collections is merged, so a step with a different team name is the team-name
  error whatever the collections hold; in particular a second snapshot with a different
  team name gives this error. A later snapshot with a different team name gives it when
  the snapshots before it merge; when they do not, the result is their conflict, not the
  team-name error.
\<close>

theorem MergeSlackExports_team_names:
  "MergeSlackExports lib [] = Inl NoExports
   \<and> (TeamName result \<noteq> TeamName slackExport \<longrightarrow>
        mergeExport lib result slackExport
          = Inl (TeamNamesDiffer (TeamName result) (TeamName slackExport)))
   \<and> (TeamName second \<noteq> TeamName first \<longrightarrow>
        MergeSlackExports lib (first # second # rest)
          = Inl (TeamNamesDiffer (TeamName first) (TeamName second)))
   \<and> (MergeSlackExports lib (first # pre) = Inr r \<and> TeamName other \<noteq> TeamName first \<longrightarrow>
        MergeSlackExports lib (first # pre @ other # rest)
          = Inl (TeamNamesDiffer (TeamName first) (TeamName other)))
   \<and> (MergeSlackExports lib (first # pre) = Inl err \<longrightarrow>
        MergeSlackExports lib (first # pre @ other # rest) = Inl err)"
proof -
  have none: "MergeSlackExports lib [] = Inl NoExports" by simp
  have step: "TeamName result \<noteq> TeamName slackExport \<longrightarrow>
        mergeExport lib result slackExport
          = Inl (TeamNamesDiffer (TeamName result) (TeamName slackExport))"
    by (simp add: mergeExport_def)
  have snd: "TeamName second \<noteq> TeamName first \<longrightarrow>
        MergeSlackExports lib (first # second # rest)
          = Inl (TeamNamesDiffer (TeamName first) (TeamName second))"
    by (simp add: first_copy mergeExport_def)
  have later: "MergeSlackExports lib (first # pre) = Inr r \<and> TeamName other \<noteq> TeamName first \<longrightarrow>
        MergeSlackExports lib (first # pre @ other # rest)
          = Inl (TeamNamesDiffer (TeamName first) (TeamName other))"
  proof
    assume a: "MergeSlackExports lib (first # pre) = Inr r \<and> TeamName other \<noteq> TeamName first"
    then have m: "mergeExports lib first pre = Inr r" by (simp add: MergeSlackExports_fold)
    then have tr: "TeamName r = TeamName first" by (rule mergeExports_TeamName)
    with a have "TeamName r \<noteq> TeamName other" by auto
    then have "mergeExport lib r other = Inl (TeamNamesDiffer (TeamName r) (TeamName other))"
      by (simp add: mergeExport_def)
    with tr have "mergeExport lib r other = Inl (TeamNamesDiffer (TeamName first) (TeamName other))"
      by simp
    with m show "MergeSlackExports lib (first # pre @ other # rest)
          = Inl (TeamNamesDiffer (TeamName first) (TeamName other))"
      by (simp add: MergeSlackExports_fold mergeExports_append)
  qed
  have conflict: "MergeSlackExports lib (first # pre) = Inl err \<longrightarrow>
        MergeSlackExports lib (first # pre @ other # rest) = Inl err"
    by (simp add: MergeSlackExports_fold mergeExports_append)
  show ?thesis
    using none step snd later conflict by (intro conjI) assumption+
qed

text \<open>
  A second snapshot of another team whose channel also conflicts with the first
  snapshot: the error is the team-name error.
\<close>

theorem MergeSlackExports_team_names_witness:
  "TeamName (exampleExport\<lparr>TeamName := ''other'',
       Channels := [exampleSlackChannel\<lparr>SlackChannel.Name := ''random''\<rparr>]\<rparr>)
     \<noteq> TeamName exampleExport
   \<and> MergeSlackExports exampleLib
        [exampleExport,
         exampleExport\<lparr>TeamName := ''other'',
           Channels := [exampleSlackChannel\<lparr>SlackChannel.Name := ''random''\<rparr>]\<rparr>,
         exampleExport]
     = Inl (TeamNamesDiffer ''acme'' ''other'')"
proof -
  let ?second = "exampleExport\<lparr>TeamName := ''other'',
       Channels := [exampleSlackChannel\<lparr>SlackChannel.Name := ''random''\<rparr>]\<rparr>"
  have h: "TeamName ?second \<noteq> TeamName exampleExport"
    by (simp add: exampleExport_def)
  note t = MergeSlackExports_team_names
    [of exampleLib exampleExport ?second ?second exampleExport "[exampleExport]"]
  from t h have "MergeSlackExports exampleLib [exampleExport, ?second, exampleExport]
      = Inl (TeamNamesDiffer (TeamName exampleExport) (TeamName ?second))"
    by blast
  then have "MergeSlackExports exampleLib [exampleExport, ?second, exampleExport]
      = Inl (TeamNamesDiffer ''acme'' ''other'')"
    by (simp add: exampleExport_def)
  with h show ?thesis by blast
qed

text \<open>
  Claim C5 as stated fails: the third snapshot has another team name than the first,
  but the second one, of the same team, holds a channel that conflicts with the first
  snapshot; its collections are merged before the third team name is looked at, and the
  result is the channel conflict.
\<close>

theorem MergeSlackExports_team_name_counterexample:
  "TeamName (exampleExport\<lparr>TeamName := ''other''\<rparr>) \<noteq> TeamName exampleExport
   \<and> MergeSlackExports exampleLib
        [exampleExport,
         exampleExport\<lparr>Channels := [exampleSlackChannel\<lparr>SlackChannel.Name := ''random''\<rparr>]\<rparr>,
         exampleExport\<lparr>TeamName := ''other''\<rparr>]
     = Inl (ChannelNamesDiffer ''general'' ''random'')"
  by (simp add: exampleExport_def exampleSlackChannel_def mergeExport_def mergeChannels_def
      mergeSlicesWith_def mergeChannel_def cloneSlice_def cloneMap_def exampleLib_def)

section \<open>Merging copies of one export\<close>

lemma update_fresh: "k \<notin> fst ` set al \<Longrightarrow> AList.update k v al = al @ [(k, v)]"
  by (induction al) auto

lemma map_of_keyed:
  "distinct (map f xs) \<Longrightarrow> x \<in> set xs \<Longrightarrow> map_of (map (\<lambda>x. (f x, x)) xs) (f x) = Some x"
  by (induction xs) (auto simp: image_iff)

text \<open>Items with fresh, distinct keys are appended to the map.\<close>

lemma mergeItems_fresh:
  "distinct (map ident a) \<Longrightarrow> ident ` set a \<inter> fst ` set m = {} \<Longrightarrow>
   mergeItems ident merge a m = Inr (m @ map (\<lambda>x. (ident x, x)) a)"
proof (induction a arbitrary: m)
  case Nil
  then show ?case by simp
next
  case (Cons x a)
  from Cons.prems have fresh: "ident x \<notin> fst ` set m" by auto
  then have none: "map_of m (ident x) = None" by (simp add: map_of_eq_None_iff)
  from Cons.prems have "ident ` set a \<inter> fst ` set (m @ [(ident x, x)]) = {}" by auto
  with Cons.IH [of "m @ [(ident x, x)]"] Cons.prems
  have "mergeItems ident merge a (m @ [(ident x, x)])
      = Inr ((m @ [(ident x, x)]) @ map (\<lambda>x. (ident x, x)) a)"
    by simp
  with none fresh show ?case by (simp add: update_fresh)
qed

text \<open>Items that the map already holds, and that merge with themselves, leave it as it is.\<close>

lemma mergeItems_present:
  "(\<And>x. x \<in> set b \<Longrightarrow> map_of m (ident x) = Some x \<and> merge x x = Inr x) \<Longrightarrow>
   mergeItems ident merge b m = Inr m"
  by (induction b) (simp_all add: update_triv)

lemma mset_rangeMap: "mset (rangeMap rank m) = mset m"
  by (simp add: rangeMap_def)

lemma mergeSlicesWith_copies:
  assumes d: "distinct (map ident a)"
      and sub: "set b \<subseteq> set a"
      and self: "\<And>x. x \<in> set a \<Longrightarrow> merge x x = Inr x"
  shows "\<exists>r. mergeSlicesWith rank a b ident merge = Inr r \<and> mset r = mset a"
proof -
  let ?m = "map (\<lambda>x. (ident x, x)) a"
  from d have m1: "mergeItems ident merge a [] = Inr ?m"
    using mergeItems_fresh [of ident a "[]" merge] by simp
  have m2: "mergeItems ident merge b ?m = Inr ?m"
  proof (rule mergeItems_present)
    fix x assume "x \<in> set b"
    with sub have "x \<in> set a" by auto
    with d self show "map_of ?m (ident x) = Some x \<and> merge x x = Inr x"
      by (simp add: map_of_keyed)
  qed
  have "mset (map snd (rangeMap rank ?m)) = mset a"
  proof -
    have "mset (map snd (rangeMap rank ?m)) = image_mset snd (mset (rangeMap rank ?m))" by simp
    also have "\<dots> = image_mset snd (mset ?m)" by (simp only: mset_rangeMap)
    also have "\<dots> = mset a" by (simp add: image_mset.compositionality comp_def)
    finally show ?thesis .
  qed
  with m1 m2 show ?thesis by (simp add: mergeSlicesWith_def)
qed

text \<open>
  Maps whose entries are related key by key: a value related to the one of \<open>E\<close> under
  the same key stays so when it is replaced by a related one.
\<close>

lemma related_lookup:
  "list_all2 (\<lambda>p q. fst p = fst q \<and> R (snd p) (snd q)) ret E \<Longrightarrow> distinct (map fst E) \<Longrightarrow>
   (k, v) \<in> set E \<Longrightarrow> \<exists>p. map_of ret k = Some p \<and> R p v"
proof (induction ret E rule: list_all2_induct)
  case Nil
  then show ?case by simp
next
  case (Cons x xs y ys)
  show ?case
  proof (cases "(k, v) = y")
    case True
    with Cons.hyps(1) show ?thesis by (cases x) auto
  next
    case False
    with Cons.prems have in_ys: "(k, v) \<in> set ys" by simp
    then have "k \<in> fst ` set ys" by (metis fst_conv imageI)
    moreover from Cons.prems(1) have "fst y \<notin> fst ` set ys" by simp
    ultimately have "k \<noteq> fst y" by metis
    with Cons.hyps(1) have "k \<noteq> fst x" by simp
    moreover from Cons.IH Cons.prems(1) in_ys obtain p where "map_of xs k = Some p" "R p v"
      by auto
    ultimately show ?thesis by (cases x) auto
  qed
qed

lemma related_update:
  "list_all2 (\<lambda>p q. fst p = fst q \<and> R (snd p) (snd q)) ret E \<Longrightarrow> distinct (map fst E) \<Longrightarrow>
   (k, v) \<in> set E \<Longrightarrow> R p' v \<Longrightarrow>
   list_all2 (\<lambda>p q. fst p = fst q \<and> R (snd p) (snd q)) (AList.update k p' ret) E"
proof (induction ret E rule: list_all2_induct)
  case Nil
  then show ?case by simp
next
  case (Cons x xs y ys)
  show ?case
  proof (cases "k = fst x")
    case True
    with Cons.hyps(1) have ky: "k = fst y" by simp
    have "v = snd y"
    proof (rule ccontr)
      assume "v \<noteq> snd y"
      with ky Cons.prems(2) have "(k, v) \<in> set ys" by (cases y) auto
      then have "k \<in> fst ` set ys" by (metis fst_conv imageI)
      moreover from Cons.prems(1) have "fst y \<notin> fst ` set ys" by simp
      ultimately show False using ky by metis
    qed
    with True ky Cons.hyps Cons.prems(3) show ?thesis by (cases x) auto
  next
    case False
    with Cons.hyps(1) have "k \<noteq> fst y" by simp
    with Cons.prems(2) have "(k, v) \<in> set ys" by (cases y) auto
    with Cons.IH Cons.prems have "list_all2 (\<lambda>p q. fst p = fst q \<and> R (snd p) (snd q))
        (AList.update k p' xs) ys"
      by simp
    with False Cons.hyps(1) show ?thesis by (cases x) auto
  qed
qed

lemma mergeEntries_related:
  assumes dE: "distinct (map fst E)"
      and step: "\<And>k v p. (k, v) \<in> set E \<Longrightarrow> R p v \<Longrightarrow> \<exists>p'. merge p v = Inr p' \<and> R p' v"
  shows "set entries \<subseteq> set E \<Longrightarrow>
         list_all2 (\<lambda>p q. fst p = fst q \<and> R (snd p) (snd q)) ret E \<Longrightarrow>
         \<exists>ret'. mergeEntries merge entries ret = Inr ret'
           \<and> list_all2 (\<lambda>p q. fst p = fst q \<and> R (snd p) (snd q)) ret' E"
proof (induction entries arbitrary: ret)
  case Nil
  then show ?case by simp
next
  case (Cons kv entries)
  obtain k v where kv: "kv = (k, v)" by (cases kv)
  with Cons.prems have inE: "(k, v) \<in> set E" by simp
  from related_lookup [OF Cons.prems(2) dE inE] obtain p
    where p: "map_of ret k = Some p" "R p v" by blast
  from step [OF inE p(2)] obtain p' where p': "merge p v = Inr p'" "R p' v" by blast
  have "list_all2 (\<lambda>p q. fst p = fst q \<and> R (snd p) (snd q)) (AList.update k p' ret) E"
    by (rule related_update [OF Cons.prems(2) dE inE p'(2)])
  with Cons.IH [of "AList.update k p' ret"] Cons.prems(1)
  obtain ret' where "mergeEntries merge entries (AList.update k p' ret) = Inr ret'"
      "list_all2 (\<lambda>p q. fst p = fst q \<and> R (snd p) (snd q)) ret' E"
    by auto
  with kv p p' show ?case by simp
qed

lemma mergeMapsWith_related:
  assumes "distinct (map fst E)"
      and "\<And>k v p. (k, v) \<in> set E \<Longrightarrow> R p v \<Longrightarrow> \<exists>p'. merge p v = Inr p' \<and> R p' v"
      and "list_all2 (\<lambda>p q. fst p = fst q \<and> R (snd p) (snd q)) ret E"
  shows "\<exists>ret'. mergeMapsWith rank ret E merge = Inr ret'
           \<and> list_all2 (\<lambda>p q. fst p = fst q \<and> R (snd p) (snd q)) ret' E"
proof -
  have "set (rangeMap rank E) \<subseteq> set E" by (simp add: rangeMap_def)
  from mergeEntries_related [of E R merge, OF assms(1) assms(2) this assms(3)]
  show ?thesis by (simp add: mergeMapsWith_def cloneMap_def)
qed

subsection \<open>The reconciliation rules on equal operands\<close>

lemma mergeChannel_self: "mergeChannel x x = Inr x"
  by (simp add: mergeChannel_def)

lemma mergeUser_self: "mergeUser x x = Inr x"
  by (simp add: mergeUser_def)

lemma mergePost_self: "comparableOriginal lib x \<Longrightarrow> mergePost lib x x = Inr x"
  by (auto simp: mergePost_def postOriginalEquivalent_def comparableOriginal_def
      split: option.splits)

lemma mergeZipFile_self: "CRC32 x \<noteq> 0 \<Longrightarrow> mergeZipFile x x = Inr x"
  by (simp add: mergeZipFile_def sliceEquals_iff)

lemma mergeChannels_copies:
  "distinct (map SlackChannel.Id e) \<Longrightarrow> mset r = mset e \<Longrightarrow>
   \<exists>r'. mergeChannels rank r e = Inr r' \<and> mset r' = mset e"
proof -
  assume d: "distinct (map SlackChannel.Id e)" and m: "mset r = mset e"
  from m have "mset (map SlackChannel.Id r) = mset (map SlackChannel.Id e)" by simp
  with d have dr: "distinct (map SlackChannel.Id r)" by (metis mset_eq_imp_distinct_iff)
  from m have "set e \<subseteq> set r" by (metis mset_eq_setD subset_refl)
  from mergeSlicesWith_copies [of SlackChannel.Id r e mergeChannel rank, OF dr this mergeChannel_self]
  show ?thesis using m by (simp add: mergeChannels_def)
qed

lemma mergeUsers_copies:
  "distinct (map SlackUser.Id e) \<Longrightarrow> mset r = mset e \<Longrightarrow>
   \<exists>r'. mergeUsers rank r e = Inr r' \<and> mset r' = mset e"
proof -
  assume d: "distinct (map SlackUser.Id e)" and m: "mset r = mset e"
  from m have "mset (map SlackUser.Id r) = mset (map SlackUser.Id e)" by simp
  with d have dr: "distinct (map SlackUser.Id r)" by (metis mset_eq_imp_distinct_iff)
  from m have "set e \<subseteq> set r" by (metis mset_eq_setD subset_refl)
  from mergeSlicesWith_copies [of SlackUser.Id r e mergeUser rank, OF dr this mergeUser_self]
  show ?thesis using m by (simp add: mergeUsers_def)
qed

lemma mergePostSlice_copies:
  "distinct (map TimeStamp e) \<Longrightarrow> list_all (comparableOriginal lib) e \<Longrightarrow> mset r = mset e \<Longrightarrow>
   \<exists>r'. mergePostSlice lib r e = Inr r' \<and> mset r' = mset e"
proof -
  assume d: "distinct (map TimeStamp e)" and c: "list_all (comparableOriginal lib) e"
    and m: "mset r = mset e"
  from m have "mset (map TimeStamp r) = mset (map TimeStamp e)" by simp
  with d have dr: "distinct (map TimeStamp r)" by (metis mset_eq_imp_distinct_iff)
  from m have se: "set r = set e" by (rule mset_eq_setD)
  then have sub: "set e \<subseteq> set r" by simp
  have self: "mergePost lib x x = Inr x" if "x \<in> set r" for x
    using that se c by (auto simp: list_all_iff intro: mergePost_self)
  from mergeSlicesWith_copies [of TimeStamp r e "mergePost lib" "rangeRank lib", OF dr sub self]
  show ?thesis using m by (simp add: mergePostSlice_def)
qed


lemma list_all2_pairs_eq:
  "list_all2 (\<lambda>p q. fst p = fst q \<and> snd p = snd q) xs ys \<longleftrightarrow> xs = ys"
proof -
  have *: "(\<lambda>p q. fst p = fst q \<and> snd p = snd q) = (=)"
    by (intro ext) (auto simp: prod_eq_iff)
  show ?thesis unfolding * by (rule list_all2_eq [symmetric])
qed

lemma mergePosts_copies:
  assumes "distinct (map fst E)"
      and "list_all (\<lambda>kv. distinct (map TimeStamp (snd kv))
                       \<and> list_all (comparableOriginal lib) (snd kv)) E"
      and "list_all2 samePostLists ret E"
  shows "\<exists>ret'. mergePosts lib ret E = Inr ret' \<and> list_all2 samePostLists ret' E"
proof -
  have same: "samePostLists = (\<lambda>p q. fst p = fst q \<and> mset (snd p) = mset (snd q))"
    by (intro ext) (simp add: samePostLists_def)
  have "\<exists>ret'. mergeMapsWith (rangeRank lib) ret E (mergePostSlice lib) = Inr ret'
      \<and> list_all2 (\<lambda>p q. fst p = fst q \<and> mset (snd p) = mset (snd q)) ret' E"
  proof (rule mergeMapsWith_related [where R = "\<lambda>p v. mset p = mset v"])
    show "distinct (map fst E)" by fact
  next
    fix k v p
    assume kv: "(k, v) \<in> set E" and m: "mset p = mset v"
    from kv assms(2) have "distinct (map TimeStamp v) \<and> list_all (comparableOriginal lib) v"
      by (auto simp: list_all_iff)
    with m show "\<exists>p'. mergePostSlice lib p v = Inr p' \<and> mset p' = mset v"
      by (simp add: mergePostSlice_copies)
  next
    from assms(3) show "list_all2 (\<lambda>p q. fst p = fst q \<and> mset (snd p) = mset (snd q)) ret E"
      by (simp add: same)
  qed
  then show ?thesis by (simp add: same mergePosts_def)
qed

lemma mergeUploads_copies:
  assumes "distinct (map fst E)" and "list_all (\<lambda>kv. CRC32 (snd kv) \<noteq> 0) E"
  shows "mergeUploads lib E E = Inr E"
proof -
  have "\<exists>ret'. mergeMapsWith (rangeRank lib) E E mergeZipFile = Inr ret'
      \<and> list_all2 (\<lambda>p q. fst p = fst q \<and> snd p = snd q) ret' E"
  proof (rule mergeMapsWith_related [where R = "(=)"])
    show "distinct (map fst E)" by fact
  next
    fix k v p
    assume "(k, v) \<in> set E" and "p = v"
    with assms(2) show "\<exists>p'. mergeZipFile p v = Inr p' \<and> p' = v"
      by (auto simp: list_all_iff mergeZipFile_self)
  next
    show "list_all2 (\<lambda>p q. fst p = fst q \<and> snd p = snd q) E E"
      by (simp add: list_all2_pairs_eq)
  qed
  then show ?thesis by (auto simp: mergeUploads_def list_all2_pairs_eq)
qed

text \<open>One step of the fold with a copy of the export keeps the result equal up to order.\<close>

lemma mergeExport_copy:
  assumes good: "mergeableWithItself lib e" and same: "sameUpToOrder r e"
  shows "\<exists>r'. mergeExport lib r e = Inr r' \<and> sameUpToOrder r' e"
proof -
  from good same obtain c1 where c1: "mergeChannels (rangeRank lib) (Channels r) (Channels e) = Inr c1"
      "mset c1 = mset (Channels e)"
    using mergeChannels_copies [of "Channels e" "Channels r" "rangeRank lib"]
    by (auto simp: mergeableWithItself_def sameUpToOrder_def)
  from good same obtain c2 where c2:
      "mergeChannels (rangeRank lib) (PublicChannels r) (PublicChannels e) = Inr c2"
      "mset c2 = mset (PublicChannels e)"
    using mergeChannels_copies [of "PublicChannels e" "PublicChannels r" "rangeRank lib"]
    by (auto simp: mergeableWithItself_def sameUpToOrder_def)
  from good same obtain c3 where c3:
      "mergeChannels (rangeRank lib) (PrivateChannels r) (PrivateChannels e) = Inr c3"
      "mset c3 = mset (PrivateChannels e)"
    using mergeChannels_copies [of "PrivateChannels e" "PrivateChannels r" "rangeRank lib"]
    by (auto simp: mergeableWithItself_def sameUpToOrder_def)
  from good same obtain c4 where c4:
      "mergeChannels (rangeRank lib) (GroupChannels r) (GroupChannels e) = Inr c4"
      "mset c4 = mset (GroupChannels e)"
    using mergeChannels_copies [of "GroupChannels e" "GroupChannels r" "rangeRank lib"]
    by (auto simp: mergeableWithItself_def sameUpToOrder_def)
  from good same obtain c5 where c5:
      "mergeChannels (rangeRank lib) (DirectChannels r) (DirectChannels e) = Inr c5"
      "mset c5 = mset (DirectChannels e)"
    using mergeChannels_copies [of "DirectChannels e" "DirectChannels r" "rangeRank lib"]
    by (auto simp: mergeableWithItself_def sameUpToOrder_def)
  from good same obtain u where u: "mergeUsers (rangeRank lib) (Users r) (Users e) = Inr u"
      "mset u = mset (Users e)"
    using mergeUsers_copies [of "Users e" "Users r" "rangeRank lib"]
    by (auto simp: mergeableWithItself_def sameUpToOrder_def)
  from good same obtain p where p: "mergePosts lib (Posts r) (Posts e) = Inr p"
      "list_all2 samePostLists p (Posts e)"
    using mergePosts_copies [of "Posts e" lib "Posts r"]
    by (auto simp: mergeableWithItself_def sameUpToOrder_def)
  from good same have up: "mergeUploads lib (Uploads r) (Uploads e) = Inr (Uploads e)"
    using mergeUploads_copies [of "Uploads e" lib]
    by (simp add: mergeableWithItself_def sameUpToOrder_def)
  from same have team: "TeamName r = TeamName e" by (simp add: sameUpToOrder_def)
  have "mergeExport lib r e =
      Inr (r\<lparr>Channels := c1, PublicChannels := c2, PrivateChannels := c3, GroupChannels := c4,
             DirectChannels := c5, Users := u, Posts := p, Uploads := Uploads e\<rparr>)"
    by (simp add: mergeExport_def team c1(1) c2(1) c3(1) c4(1) c5(1) u(1) p(1) up)
  moreover have "sameUpToOrder
      (r\<lparr>Channels := c1, PublicChannels := c2, PrivateChannels := c3, GroupChannels := c4,
         DirectChannels := c5, Users := u, Posts := p, Uploads := Uploads e\<rparr>) e"
    by (simp add: sameUpToOrder_def team c1(2) c2(2) c3(2) c4(2) c5(2) u(2) p(2))
  ultimately show ?thesis by blast
qed

lemma mergeExports_copies:
  "mergeableWithItself lib e \<Longrightarrow> sameUpToOrder r e \<Longrightarrow>
   \<exists>r'. mergeExports lib r (replicate n e) = Inr r' \<and> sameUpToOrder r' e"
proof (induction n arbitrary: r)
  case 0
  then show ?case by simp
next
  case (Suc n)
  from mergeExport_copy [OF Suc.prems] obtain r1
    where r1: "mergeExport lib r e = Inr r1" "sameUpToOrder r1 e" by blast
  from Suc.IH [OF Suc.prems(1) r1(2)] obtain r'
    where "mergeExports lib r1 (replicate n e) = Inr r'" "sameUpToOrder r' e" by blast
  with r1(1) show ?case by simp
qed

lemma sameUpToOrder_refl: "distinct (map fst (Posts e)) \<Longrightarrow> sameUpToOrder e e"
  by (simp add: sameUpToOrder_def list_all2_same samePostLists_def)

text \<open>
  Claim C2, as the code has it. \<open>MergeSlackExports\<close> on a one-element list returns that
  export. On a list of two or more copies of one export that merges with itself (the
  identity keys within each of its lists are distinct, the raw-original capture of every
  post unmarshals and marshals again, and every upload has a known checksum) it succeeds,
  and the result is equal to the copy up to the order of the elements of every channel
  list, of the user list and of every list of posts; that order is the one of a range
  over a map.
\<close>

theorem MergeSlackExports_copies:
  "MergeSlackExports lib [e] = Inr e
   \<and> (mergeableWithItself lib e \<longrightarrow>
        (\<exists>r. MergeSlackExports lib (replicate (Suc (Suc n)) e) = Inr r \<and> sameUpToOrder r e))"
proof -
  have one: "MergeSlackExports lib [e] = Inr e" by simp
  have more: "\<exists>r. MergeSlackExports lib (replicate (Suc (Suc n)) e) = Inr r \<and> sameUpToOrder r e"
    if good: "mergeableWithItself lib e"
  proof -
    from good have "sameUpToOrder e e"
      by (simp add: sameUpToOrder_refl mergeableWithItself_def)
    from mergeExports_copies [OF good this, of "Suc n"]
    show ?thesis by (simp add: MergeSlackExports_fold)
  qed
  from one more show ?thesis by blast
qed

text \<open>Two copies of the example export, visited in the order of the association lists.\<close>

theorem MergeSlackExports_copies_witness:
  "mergeableWithItself exampleLib exampleExport
   \<and> (\<exists>r. MergeSlackExports exampleLib (replicate (Suc (Suc 0)) exampleExport) = Inr r
         \<and> sameUpToOrder r exampleExport)"
proof -
  have c: "comparableOriginal exampleLib examplePost"
    by (simp add: comparableOriginal_def exampleLib_def examplePost_def exampleUnmarshal_def
        exampleMarshal_def stripVolatile_def)
  have z: "CRC32 exampleZipFile \<noteq> 0" by (simp add: exampleZipFile_def)
  from c z have good: "mergeableWithItself exampleLib exampleExport"
    by (simp add: mergeableWithItself_def exampleExport_def)
  from MergeSlackExports_copies [of exampleLib exampleExport 0] good show ?thesis by blast
qed

text \<open>
  Claim C2 as stated fails in four ways. Two copies of an export with an upload whose
  checksum is unknown (zero, as for an empty file) do not merge at all, and neither do two
  copies of an export with a post whose raw-original capture does not unmarshal. Two
  copies of an export that lists a user twice merge into an export that lists it once.
  And two copies of an export with two channels merge into an export whose channel list
  has the other order when the range over the map of channels visits \<open>C2\<close> before
  \<open>C1\<close>.
\<close>

theorem MergeSlackExports_copies_counterexample:
  "MergeSlackExports exampleLib
     [exampleExport\<lparr>Uploads := [(''F1'', exampleZipFile\<lparr>CRC32 := 0\<rparr>)]\<rparr>,
      exampleExport\<lparr>Uploads := [(''F1'', exampleZipFile\<lparr>CRC32 := 0\<rparr>)]\<rparr>]
     = Inl (ZipCRC32Unknown 0 0)
   \<and> MergeSlackExports exampleLib
       [exampleExport\<lparr>Posts := [(''general'', [examplePost\<lparr>Original := ''''\<rparr>])]\<rparr>,
        exampleExport\<lparr>Posts := [(''general'', [examplePost\<lparr>Original := ''''\<rparr>])]\<rparr>]
     = Inl (UnmarshalError '''')
   \<and> MergeSlackExports exampleLib
       [exampleExport\<lparr>Users := [exampleSlackUser, exampleSlackUser]\<rparr>,
        exampleExport\<lparr>Users := [exampleSlackUser, exampleSlackUser]\<rparr>]
     = Inr (exampleExport\<lparr>Users := [exampleSlackUser]\<rparr>)
   \<and> MergeSlackExports (exampleLib\<lparr>rangeRank := (\<lambda>ks k. if k = ''C1'' then 1 else 0)\<rparr>)
       [exampleExport\<lparr>Channels := [exampleSlackChannel,
          exampleSlackChannel\<lparr>SlackChannel.Id := ''C2'', SlackChannel.Name := ''random''\<rparr>]\<rparr>,
        exampleExport\<lparr>Channels := [exampleSlackChannel,
          exampleSlackChannel\<lparr>SlackChannel.Id := ''C2'', SlackChannel.Name := ''random''\<rparr>]\<rparr>]
     = Inr (exampleExport\<lparr>Channels :=
          [exampleSlackChannel\<lparr>SlackChannel.Id := ''C2'', SlackChannel.Name := ''random''\<rparr>,
           exampleSlackChannel]\<rparr>)"
proof -
  have post: "mergePost lib examplePost examplePost = Inr examplePost"
    if "Unmarshal lib = exampleUnmarshal" and "Marshal lib = exampleMarshal" for lib
    using that
    by (simp add: mergePost_def postOriginalEquivalent_def examplePost_def exampleUnmarshal_def
        exampleMarshal_def stripVolatile_def)
  have post0: "mergePost exampleLib (examplePost\<lparr>Original := ''''\<rparr>)
        (examplePost\<lparr>Original := ''''\<rparr>) = Inl (UnmarshalError '''')"
    by (simp add: mergePost_def postOriginalEquivalent_def exampleLib_def exampleUnmarshal_def)
  have zip: "mergeZipFile exampleZipFile exampleZipFile = Inr exampleZipFile"
    by (simp add: mergeZipFile_def sliceEquals_iff exampleZipFile_def)
  have zip0: "mergeZipFile (exampleZipFile\<lparr>CRC32 := 0\<rparr>) (exampleZipFile\<lparr>CRC32 := 0\<rparr>)
      = Inl (ZipCRC32Unknown 0 0)"
    by (simp add: mergeZipFile_def)
  have ids: "SlackChannel.Id exampleSlackChannel = ''C1''" "SlackUser.Id exampleSlackUser = ''U1''"
      "TimeStamp examplePost = ''1549307811.074100''"
    by (simp_all add: exampleSlackChannel_def exampleSlackUser_def examplePost_def)
  have l: "Unmarshal exampleLib = exampleUnmarshal" "Marshal exampleLib = exampleMarshal"
      "rangeRank exampleLib = (\<lambda>ks k. 0)"
    by (simp_all add: exampleLib_def)
  note eval = first_copy mergeExport_def mergeChannels_def mergeUsers_def mergePosts_def
    mergeUploads_def mergePostSlice_def mergeSlicesWith_def mergeMapsWith_def rangeMap_def
    cloneMap_def cloneSlice_def Let_def exampleExport_def ids mergeChannel_self mergeUser_self
  have checksum: "MergeSlackExports exampleLib
     [exampleExport\<lparr>Uploads := [(''F1'', exampleZipFile\<lparr>CRC32 := 0\<rparr>)]\<rparr>,
      exampleExport\<lparr>Uploads := [(''F1'', exampleZipFile\<lparr>CRC32 := 0\<rparr>)]\<rparr>]
     = Inl (ZipCRC32Unknown 0 0)"
    by (simp add: eval l post [OF l(1,2)] zip0)
  have original: "MergeSlackExports exampleLib
       [exampleExport\<lparr>Posts := [(''general'', [examplePost\<lparr>Original := ''''\<rparr>])]\<rparr>,
        exampleExport\<lparr>Posts := [(''general'', [examplePost\<lparr>Original := ''''\<rparr>])]\<rparr>]
     = Inl (UnmarshalError '''')"
    by (simp add: eval l post0)
  have twice: "MergeSlackExports exampleLib
       [exampleExport\<lparr>Users := [exampleSlackUser, exampleSlackUser]\<rparr>,
        exampleExport\<lparr>Users := [exampleSlackUser, exampleSlackUser]\<rparr>]
     = Inr (exampleExport\<lparr>Users := [exampleSlackUser]\<rparr>)"
    by (simp add: eval l post [OF l(1,2)] zip)
  let ?lib = "exampleLib\<lparr>rangeRank := (\<lambda>ks k. if k = ''C1'' then 1 else 0)\<rparr>"
  have l': "Unmarshal ?lib = exampleUnmarshal" "Marshal ?lib = exampleMarshal"
      "rangeRank ?lib = (\<lambda>ks k. if k = ''C1'' then 1 else 0)"
    by (simp_all add: exampleLib_def)
  have order: "MergeSlackExports ?lib
       [exampleExport\<lparr>Channels := [exampleSlackChannel,
          exampleSlackChannel\<lparr>SlackChannel.Id := ''C2'', SlackChannel.Name := ''random''\<rparr>]\<rparr>,
        exampleExport\<lparr>Channels := [exampleSlackChannel,
          exampleSlackChannel\<lparr>SlackChannel.Id := ''C2'', SlackChannel.Name := ''random''\<rparr>]\<rparr>]
     = Inr (exampleExport\<lparr>Channels :=
          [exampleSlackChannel\<lparr>SlackChannel.Id := ''C2'', SlackChannel.Name := ''random''\<rparr>,
           exampleSlackChannel]\<rparr>)"
    by (simp add: eval l' post [OF l'(1,2)] zip)
  from checksum original twice order show ?thesis by (intro conjI) assumption+
qed

section \<open>Timestamps within a channel\<close>

subsection \<open>Fields of a post\<close>

lemma setCreateAt_sel [simp]:
  "CreateAt (setCreateAt c p) = c" "Replies (setCreateAt c p) = Replies p"
  "Message (setCreateAt c p) = Message p"
  by (cases p; simp)+

lemma setProps_sel [simp]:
  "CreateAt (setProps v p) = CreateAt p" "Replies (setProps v p) = Replies p"
  "Message (setProps v p) = Message p"
  by (cases p; simp)+

lemma setAttachments_sel [simp]:
  "CreateAt (setAttachments v p) = CreateAt p" "Replies (setAttachments v p) = Replies p"
  "Message (setAttachments v p) = Message p"
  by (cases p; simp)+

lemma setIsDirect_sel [simp]:
  "CreateAt (setIsDirect v p) = CreateAt p" "Replies (setIsDirect v p) = Replies p"
  "Message (setIsDirect v p) = Message p"
  by (cases p; simp)+

lemma setChannelMembers_sel [simp]:
  "CreateAt (setChannelMembers v p) = CreateAt p" "Replies (setChannelMembers v p) = Replies p"
  "Message (setChannelMembers v p) = Message p"
  by (cases p; simp)+

lemma setReplies_sel [simp]:
  "CreateAt (setReplies v p) = CreateAt p" "Replies (setReplies v p) = v"
  "Message (setReplies v p) = Message p"
  by (cases p; simp)+


lemma emittedPosts_simps [simp]:
  "emittedPosts [] = []"
  "emittedPosts (p # ps) = postAndReplies p @ emittedPosts ps"
  "emittedPosts (ps @ qs) = emittedPosts ps @ emittedPosts qs"
  by (simp_all add: emittedPosts_def)

lemma threadCreateAts_simps [simp]:
  "threadCreateAts [] = []"
  "threadCreateAts (kv # threads) = map CreateAt (postAndReplies (snd kv)) @ threadCreateAts threads"
  by (simp_all add: threadCreateAts_def)

subsection \<open>The loop that avoids duplicates\<close>






subsection \<open>Updating the map of threads\<close>








subsection \<open>The steps of the transform return\<close>











subsection \<open>What a step of the loop stores\<close>















subsection \<open>Posts that are not lost\<close>












section \<open>Placeholder authors\<close>

text \<open>
  Claim C9, at a file comment. The index holds the user \<open>U1\<close> and no user \<open>U2\<close>. A
  plain message of the missing \<open>U2\<close> creates the placeholder under \<open>U2\<close> and makes it
  the author, as the claim says. A file comment of \<open>U1\<close>'s file whose comment is by the
  missing \<open>U2\<close> looks \<open>U2\<close> up, but creates the placeholder under the user id of the
  post, \<open>U1\<close>: the user \<open>U1\<close> of the index is replaced by a "Deleted User", this
  placeholder becomes the author of the comment, and \<open>U2\<close> is still not in the index.
\<close>

theorem transformPost_file_comment_placeholder:
  "transformPost exampleLib False False exampleChannel
     (examplePost\<lparr>SlackPost.User := ''U2''\<rparr>)
     (exampleTransformer\<lparr>UsersById := [(''U1'', exampleUser)]\<rparr>, [], [])
   = Inr (\<lparr>UsersById =
             [(''U1'', exampleUser),
              (''U2'', \<lparr>IntermediateUser.Id = ''U2'', Username = ''u2'', FirstName = ''Deleted'',
                        LastName = ''User'', Position = '''', Email = ''U2@local'',
                        Password = ''id'', Memberships = []\<rparr>)],
           UserOverrides = [], NewIdCalls = 1\<rparr>,
          [(''1549307811.074100'',
            IntermediatePost ''u2'' ''general'' ''hi'' None 10000 [] [] False [] None)],
          [10000])
   \<and> transformPost exampleLib False False exampleChannel
       (examplePost\<lparr>SubType := ''file_comment'',
          SlackPost.Comment := Some \<lparr>SlackComment.User = ''U2'', Comment = ''nice file''\<rparr>\<rparr>)
       (exampleTransformer\<lparr>UsersById := [(''U1'', exampleUser)]\<rparr>, [], [])
     = Inr (\<lparr>UsersById =
               [(''U1'', \<lparr>IntermediateUser.Id = ''U1'', Username = ''u1'', FirstName = ''Deleted'',
                          LastName = ''User'', Position = '''', Email = ''U1@local'',
                          Password = ''id'', Memberships = []\<rparr>)],
             UserOverrides = [], NewIdCalls = 1\<rparr>,
            [(''1549307811.074100'',
              IntermediatePost ''u1'' ''general'' ''nice file'' None 10000 [] [] False [] None)],
            [10000])"
proof -
  note eval = transformPost_def buildAndAddPost_def
    lookupOrCreate_def CreateIntermediateUser_def ApplyUserOverrides_def
    SlackConvertReactions_def GetPropsForPost_def propsRunes_def AddPostToThreads_def
    avoidTimestampDuplications.simps exampleLib_def exampleTransformer_def
    exampleChannel_def examplePost_def exampleUser_def exampleToLower_def ChannelTypeDirect_def
    ChannelTypeGroup_def ChannelTypeOpen_def elems_def Let_def
  have plain: "transformPost exampleLib False False exampleChannel
     (examplePost\<lparr>SlackPost.User := ''U2''\<rparr>)
     (exampleTransformer\<lparr>UsersById := [(''U1'', exampleUser)]\<rparr>, [], [])
   = Inr (\<lparr>UsersById =
             [(''U1'', exampleUser),
              (''U2'', \<lparr>IntermediateUser.Id = ''U2'', Username = ''u2'', FirstName = ''Deleted'',
                        LastName = ''User'', Position = '''', Email = ''U2@local'',
                        Password = ''id'', Memberships = []\<rparr>)],
           UserOverrides = [], NewIdCalls = 1\<rparr>,
          [(''1549307811.074100'',
            IntermediatePost ''u2'' ''general'' ''hi'' None 10000 [] [] False [] None)],
          [10000])"
    by (simp add: eval)
  have comment: "transformPost exampleLib False False exampleChannel
       (examplePost\<lparr>SubType := ''file_comment'',
          SlackPost.Comment := Some \<lparr>SlackComment.User = ''U2'', Comment = ''nice file''\<rparr>\<rparr>)
       (exampleTransformer\<lparr>UsersById := [(''U1'', exampleUser)]\<rparr>, [], [])
     = Inr (\<lparr>UsersById =
               [(''U1'', \<lparr>IntermediateUser.Id = ''U1'', Username = ''u1'', FirstName = ''Deleted'',
                          LastName = ''User'', Position = '''', Email = ''U1@local'',
                          Password = ''id'', Memberships = []\<rparr>)],
             UserOverrides = [], NewIdCalls = 1\<rparr>,
            [(''1549307811.074100'',
              IntermediatePost ''u1'' ''general'' ''nice file'' None 10000 [] [] False [] None)],
            [10000])"
    by (simp add: eval)
  from plain comment show ?thesis by (rule conjI)
qed

end
